theory Spec2Isabelle
  imports Main
begin

section \<open>Values shared by the accumulator and the orchestrator\<close>

text \<open>
  Go's \<^verbatim>\<open>error\<close> values. \<^verbatim>\<open>ErrCreateOperatorDeploymentConfig\<close> wraps the error
  of the release-tag lookup.
\<close>

datatype error = Err string | ErrCreateOperatorDeploymentConfig error

text \<open>
  \<^verbatim>\<open>broker.EventType\<close> is a string type with four named constants; any other string
  is a value of the type too.
\<close>

datatype EventType = Add | Update | Delete | ErrorEvent | OtherEvent string

text \<open>
  The dynamic value held by \<^verbatim>\<open>Object interface{}\<close> of a \<^verbatim>\<open>broker.Message\<close>: nil, a
  value implementing \<^verbatim>\<open>error\<close>, a \<^verbatim>\<open>[]interface{}\<close>, or a value of any other dynamic
  type (a map, a string, a number, ...), kept abstract as \<open>'j\<close>.
\<close>

datatype 'j any = Nil_any | Error_any error | Slice_any "'j any list" | Other_any 'j

text \<open>
  Modelled from the spec: \<^verbatim>\<open>meshsyncmodel.Object\<close>, which is declared outside the sources.
  The ResourceObject has an identity (kind, name, namespace), a spec and a status payload.
\<close>

record Object =
  obj_Kind :: string
  obj_Name :: string
  obj_Namespace :: string
  obj_Spec :: string
  obj_Status :: string

record RequestObject =
  req_Entity :: string
  req_Payload_Reply :: string

record 'j Message =
  msg_EventType :: EventType
  msg_Object :: "'j any"
  msg_Request :: "RequestObject option"

text \<open>The five models handed to the migrator by \<^verbatim>\<open>removeStaleObjects\<close>.\<close>

datatype table = KeyValue | Object_table | ResourceSpec | ResourceStatus | ResourceObjectMeta

datatype goroutine = Go_subsribeToStoreUpdates | Go_subscribeToMeshsyncEvents

datatype logarg = LStr string | LEvt EventType | LErr error

text \<open>
  Everything a handler does to its collaborators, in program order. The trace is how the
  order of calls, the lock bracket and the started goroutines are observed.
\<close>

datatype 'j action =
    Lock
  | Unlock
  | DbCreate Object
  | DbUpdatesFullSave Object
  | DbDelete Object
  | DropTable "table list"
  | CreateTable "table list"
  | Subscribe string
  | Publish string "'j Message"
  | Go goroutine
  | LogInfo "logarg list"
  | LogError error

text \<open>
  The collaborators are interfaces implemented outside the repository
  (\<^verbatim>\<open>database.Handler\<close> over gorm, \<^verbatim>\<open>broker.Handler\<close> over NATS). Each call may fail
  and may change the outside world \<open>'w\<close>; a handler value is the record of its methods.
  \<open>db_Updates\<close> is \<^verbatim>\<open>Session(&gorm.Session{FullSaveAssociations: true}).Updates\<close>.
\<close>

record 'w database_Handler =
  db_Create :: "Object \<Rightarrow> 'w \<Rightarrow> error option \<times> 'w"
  db_Updates :: "Object \<Rightarrow> 'w \<Rightarrow> error option \<times> 'w"
  db_Delete :: "Object \<Rightarrow> 'w \<Rightarrow> error option \<times> 'w"
  db_DropTable :: "table list \<Rightarrow> 'w \<Rightarrow> error option \<times> 'w"
  db_CreateTable :: "table list \<Rightarrow> 'w \<Rightarrow> error option \<times> 'w"

record ('w, 'j) broker_Handler =
  br_SubscribeWithChannel :: "string \<Rightarrow> 'w \<Rightarrow> error option \<times> 'w"
  br_Publish :: "string \<Rightarrow> 'j Message \<Rightarrow> 'w \<Rightarrow> error option \<times> 'w"

record ('w, 'j) MeshsyncDataHandler =
  mh_broker :: "('w, 'j) broker_Handler"
  mh_dbHandler :: "'w database_Handler"

record ('w, 'j) state =
  world :: 'w
  trace :: "'j action list"

definition emit :: "'j action \<Rightarrow> ('w, 'j) state \<Rightarrow> ('w, 'j) state" where
  "emit a s = s\<lparr>trace := trace s @ [a]\<rparr>"

text \<open>A call to a collaborator: it is recorded, and its effect on the world is kept.\<close>

definition call :: "('w \<Rightarrow> 'r \<times> 'w) \<Rightarrow> 'j action \<Rightarrow> ('w, 'j) state \<Rightarrow> 'r \<times> ('w, 'j) state" where
  "call f a s = (fst (f (world s)), \<lparr>world = snd (f (world s)), trace = trace s @ [a]\<rparr>)"

definition NewMeshsyncDataHandler ::
  "('w, 'j) broker_Handler \<Rightarrow> 'w database_Handler \<Rightarrow> ('w, 'j) MeshsyncDataHandler" where
  "NewMeshsyncDataHandler b d = \<lparr>mh_broker = b, mh_dbHandler = d\<rparr>"

definition MeshsyncStoreUpdatesSubject :: string where
  "MeshsyncStoreUpdatesSubject = ''meshery-server.meshsync.store''"

section \<open>The accumulator: persistence\<close>

text \<open>
  \<^verbatim>\<open>meshsyncEventsAccumulator\<close>. \<open>dec\<close> is \<^verbatim>\<open>utils.Marshal\<close> followed by
  \<^verbatim>\<open>utils.Unmarshal\<close> into an Object (the error of Marshal is dropped by the source, the
  error of Unmarshal is the one returned). The deferred Unlock runs on every return.
  One function runs at a time here, so Lock finds the mutex free: the trace shows which
  calls a Lock/Unlock bracket encloses, not how goroutines wait for each other.
\<close>

definition meshsyncEventsAccumulator ::
  "('j any \<Rightarrow> error + Object) \<Rightarrow> ('w, 'j) MeshsyncDataHandler \<Rightarrow> 'j Message \<Rightarrow>
     ('w, 'j) state \<Rightarrow> error option \<times> ('w, 'j) state" where
  "meshsyncEventsAccumulator dec mh event s0 =
    (let s1 = emit Lock s0 in
     case dec (msg_Object event) of
       Inl err \<Rightarrow> (Some err, emit Unlock s1)
     | Inr obj \<Rightarrow>
        (let done = (\<lambda>s. (None, emit Unlock (emit (LogInfo
               [LStr ''Updated database in response to '', LEvt (msg_EventType event),
                LStr '' event of object: '', LStr (obj_Name obj),
                LStr '' in namespace: '', LStr (obj_Namespace obj),
                LStr '' of kind: '', LStr (obj_Kind obj)]) s)))
         in
         if msg_EventType event = Add \<or> msg_EventType event = Update then
           (case call (db_Create (mh_dbHandler mh) obj) (DbCreate obj) s1 of
              (Some _, s2) \<Rightarrow>
                (case call (db_Updates (mh_dbHandler mh) obj) (DbUpdatesFullSave obj) s2 of
                   (Some err2, s3) \<Rightarrow> (Some err2, emit Unlock s3)
                 | (None, s3) \<Rightarrow> (None, emit Unlock s3))
            | (None, s2) \<Rightarrow> done s2)
         else if msg_EventType event = Delete then
           (case call (db_Delete (mh_dbHandler mh) obj) (DbDelete obj) s1 of
              (Some err1, s2) \<Rightarrow> (Some err1, emit Unlock s2)
            | (None, s2) \<Rightarrow> done s2)
         else done s1))"

text \<open>\<^verbatim>\<open>persistStoreUpdate\<close>: the snapshot path, for an object already decoded.\<close>

definition persistStoreUpdate ::
  "('w, 'j) MeshsyncDataHandler \<Rightarrow> Object \<Rightarrow> ('w, 'j) state \<Rightarrow> error option \<times> ('w, 'j) state" where
  "persistStoreUpdate mh object s0 =
    (let s1 = emit Lock s0 in
     case call (db_Create (mh_dbHandler mh) object) (DbCreate object) s1 of
       (Some _, s2) \<Rightarrow>
         (case call (db_Updates (mh_dbHandler mh) object) (DbUpdatesFullSave object) s2 of
            (Some err2, s3) \<Rightarrow> (Some err2, emit Unlock s3)
          | (None, s3) \<Rightarrow> (None, emit Unlock (emit (LogInfo
               [LStr ''Updated object: '', LStr (obj_Name object), LStr ''/'',
                LStr (obj_Namespace object), LStr '' of kind: '', LStr (obj_Kind object),
                LStr '' in the database'']) s3)))
     | (None, s2) \<Rightarrow> (None, emit Unlock (emit (LogInfo
               [LStr ''Added object: '', LStr (obj_Name object), LStr ''/'',
                LStr (obj_Namespace object), LStr '' of kind: '', LStr (obj_Kind object),
                LStr '' to the database'']) s2)))"

text \<open>The calls that reach storage, and those together with the lock around them.\<close>

fun is_db_call :: "'j action \<Rightarrow> bool" where
  "is_db_call (DbCreate _) = True"
| "is_db_call (DbUpdatesFullSave _) = True"
| "is_db_call (DbDelete _) = True"
| "is_db_call (DropTable _) = True"
| "is_db_call (CreateTable _) = True"
| "is_db_call _ = False"

definition db_calls :: "'j action list \<Rightarrow> 'j action list" where
  "db_calls tr = filter is_db_call tr"

fun is_storage_action :: "'j action \<Rightarrow> bool" where
  "is_storage_action Lock = True"
| "is_storage_action Unlock = True"
| "is_storage_action a = is_db_call a"

definition storage_actions :: "'j action list \<Rightarrow> 'j action list" where
  "storage_actions tr = filter is_storage_action tr"

section \<open>The accumulator: cold start, full-sync request, Run\<close>

definition all_tables :: "table list" where
  "all_tables = [KeyValue, Object_table, ResourceSpec, ResourceStatus, ResourceObjectMeta]"

definition removeStaleObjects ::
  "('w, 'j) MeshsyncDataHandler \<Rightarrow> ('w, 'j) state \<Rightarrow> error option \<times> ('w, 'j) state" where
  "removeStaleObjects mh s0 =
    (let s1 = emit (LogInfo [LStr ''Removing stale meshsync objects from the database''])
                (emit Lock s0) in
     case call (db_DropTable (mh_dbHandler mh) all_tables) (DropTable all_tables) s1 of
       (Some err, s2) \<Rightarrow> (Some err, emit Unlock s2)
     | (None, s2) \<Rightarrow>
        (case call (db_CreateTable (mh_dbHandler mh) all_tables) (CreateTable all_tables) s2 of
           (Some err, s3) \<Rightarrow> (Some err, emit Unlock s3)
         | (None, s3) \<Rightarrow> (None, emit Unlock s3)))"

definition store_request :: "'j Message" where
  "store_request =
     \<lparr>msg_EventType = OtherEvent [], msg_Object = Nil_any,
      msg_Request = Some \<lparr>req_Entity = ''informer-store'',
                          req_Payload_Reply = ''meshery-server.meshsync.store''\<rparr>\<rparr>"

definition requestMeshsyncStore ::
  "('w, 'j) MeshsyncDataHandler \<Rightarrow> ('w, 'j) state \<Rightarrow> error option \<times> ('w, 'j) state" where
  "requestMeshsyncStore mh s =
     call (br_Publish (mh_broker mh) ''meshery.meshsync.request'' store_request)
          (Publish ''meshery.meshsync.request'' store_request) s"

text \<open>
  \<^verbatim>\<open>Run\<close>. A \<^verbatim>\<open>go\<close> statement is recorded where it is executed; what the started
  goroutine does is the matter of the two loop functions below.
\<close>

definition Run ::
  "('w, 'j) MeshsyncDataHandler \<Rightarrow> ('w, 'j) state \<Rightarrow> error option \<times> ('w, 'j) state" where
  "Run mh s0 =
    (case removeStaleObjects mh s0 of
       (Some err, s1) \<Rightarrow> (Some err, s1)
     | (None, s1) \<Rightarrow>
         requestMeshsyncStore mh
           (emit (Go Go_subscribeToMeshsyncEvents) (emit (Go Go_subsribeToStoreUpdates) s1)))"

section \<open>The accumulator: the two subscriber loops\<close>

text \<open>
  How a goroutine ends: its loop ran until the channel was closed, it returned because
  the subscription failed, or an unchecked type assertion panicked (which, in a
  goroutine without recover, ends the process).
\<close>

datatype ending = ChannelClosed | SubscribeFailed | Panicked

text \<open>
  The body of \<^verbatim>\<open>for event := range eventsChan\<close>, over the messages the channel delivers
  before it is closed. \<^verbatim>\<open>event.Object.(error)\<close> is an unchecked assertion: it panics
  unless the dynamic value implements \<^verbatim>\<open>error\<close>.
\<close>

fun events_loop ::
  "('j any \<Rightarrow> error + Object) \<Rightarrow> ('w, 'j) MeshsyncDataHandler \<Rightarrow> 'j Message list \<Rightarrow>
     ('w, 'j) state \<Rightarrow> ending \<times> ('w, 'j) state" where
  "events_loop dec mh [] s = (ChannelClosed, s)"
| "events_loop dec mh (event # rest) s =
    (if msg_EventType event = ErrorEvent then
       (case msg_Object event of
          Error_any e \<Rightarrow> events_loop dec mh rest (emit (LogError e) s)
        | _ \<Rightarrow> (Panicked, s))
     else
       (case meshsyncEventsAccumulator dec mh event s of
          (Some err, s') \<Rightarrow> events_loop dec mh rest (emit (LogError err) s')
        | (None, s') \<Rightarrow> events_loop dec mh rest s'))"

definition subscribeToMeshsyncEvents ::
  "('j any \<Rightarrow> error + Object) \<Rightarrow> ('w, 'j) MeshsyncDataHandler \<Rightarrow> 'j Message list \<Rightarrow>
     ('w, 'j) state \<Rightarrow> ending \<times> ('w, 'j) state" where
  "subscribeToMeshsyncEvents dec mh eventsChan s0 =
    (case call (br_SubscribeWithChannel (mh_broker mh) ''meshery.meshsync.core'')
               (Subscribe ''meshery.meshsync.core'') s0 of
       (Some err, s1) \<Rightarrow> (SubscribeFailed, emit (LogError err) s1)
     | (None, s1) \<Rightarrow>
         events_loop dec mh eventsChan
           (emit (LogInfo [LStr ''subscribing to meshsync events on NATS subject: meshery.meshsync.core  ''])
              s1))"

text \<open>The inner \<^verbatim>\<open>for _, object := range objectsSlice\<close> of the store-update loop.\<close>

fun objects_loop ::
  "('j any \<Rightarrow> error + Object) \<Rightarrow> ('w, 'j) MeshsyncDataHandler \<Rightarrow> 'j any list \<Rightarrow>
     ('w, 'j) state \<Rightarrow> ('w, 'j) state" where
  "objects_loop dec mh [] s = s"
| "objects_loop dec mh (object # rest) s =
    (case dec object of
       Inl err \<Rightarrow> objects_loop dec mh rest (emit (LogError err) s)
     | Inr obj \<Rightarrow>
        (case persistStoreUpdate mh obj s of
           (Some err, s') \<Rightarrow> objects_loop dec mh rest (emit (LogError err) s')
         | (None, s') \<Rightarrow> objects_loop dec mh rest s'))"

text \<open>
  The body of \<^verbatim>\<open>for storeUpdate := range storeChan\<close>. Both
  \<^verbatim>\<open>storeUpdate.Object.(error)\<close> and \<^verbatim>\<open>storeUpdate.Object.([]interface{})\<close> are unchecked.
\<close>

fun store_loop ::
  "('j any \<Rightarrow> error + Object) \<Rightarrow> ('w, 'j) MeshsyncDataHandler \<Rightarrow> 'j Message list \<Rightarrow>
     ('w, 'j) state \<Rightarrow> ending \<times> ('w, 'j) state" where
  "store_loop dec mh [] s = (ChannelClosed, s)"
| "store_loop dec mh (storeUpdate # rest) s =
    (if msg_EventType storeUpdate = ErrorEvent then
       (case msg_Object storeUpdate of
          Error_any e \<Rightarrow> store_loop dec mh rest (emit (LogError e) s)
        | _ \<Rightarrow> (Panicked, s))
     else
       (case msg_Object storeUpdate of
          Slice_any objectsSlice \<Rightarrow> store_loop dec mh rest (objects_loop dec mh objectsSlice s)
        | _ \<Rightarrow> (Panicked, s)))"

definition subsribeToStoreUpdates ::
  "('j any \<Rightarrow> error + Object) \<Rightarrow> ('w, 'j) MeshsyncDataHandler \<Rightarrow> 'j Message list \<Rightarrow>
     ('w, 'j) state \<Rightarrow> ending \<times> ('w, 'j) state" where
  "subsribeToStoreUpdates dec mh storeChan s0 =
    (let s1 = emit (LogInfo [LStr ''subscribing to store updates from meshsync on NATS subject: '',
                             LStr MeshsyncStoreUpdatesSubject]) s0 in
     case call (br_SubscribeWithChannel (mh_broker mh) MeshsyncStoreUpdatesSubject)
               (Subscribe MeshsyncStoreUpdatesSubject) s1 of
       (Some err, s2) \<Rightarrow> (SubscribeFailed, emit (LogError err) s2)
     | (None, s2) \<Rightarrow> store_loop dec mh storeChan s2)"

text \<open>The shapes on which the assertions of the two loops hold.\<close>

fun event_asserts :: "'j Message \<Rightarrow> bool" where
  "event_asserts m =
     (case msg_Object m of Error_any _ \<Rightarrow> True | _ \<Rightarrow> msg_EventType m \<noteq> ErrorEvent)"

fun store_asserts :: "'j Message \<Rightarrow> bool" where
  "store_asserts m =
     (case msg_Object m of
        Error_any _ \<Rightarrow> msg_EventType m = ErrorEvent
      | Slice_any _ \<Rightarrow> msg_EventType m \<noteq> ErrorEvent
      | _ \<Rightarrow> False)"

section \<open>The storage engine\<close>

text \<open>
  Modelled from the spec: the relational storage engine behind \<^verbatim>\<open>database.Handler\<close>,
  which is not part of the sources. The primary resource table is keyed by
  (kind, namespace, name), so it holds at most one row per key; creating a row whose key
  is present fails with a uniqueness conflict; a full update rewrites the existing row
  and affects no row when there is none; the cold start leaves the tables empty.
\<close>

type_synonym key = "string \<times> string \<times> string"

definition key_of :: "Object \<Rightarrow> key" where
  "key_of obj = (obj_Kind obj, obj_Namespace obj, obj_Name obj)"

record tables =
  rows :: "key \<rightharpoonup> Object"

definition row_count :: "key \<Rightarrow> 'a tables_scheme \<Rightarrow> nat" where
  "row_count k w = (case rows w k of None \<Rightarrow> 0 | Some _ \<Rightarrow> 1)"

text \<open>
  Modelled from the spec: the calls of the engine. Create meets a uniqueness conflict on a
  present key; the full update rewrites the row of the key; Delete removes it.
\<close>

definition engine_Create :: "Object \<Rightarrow> 'a tables_scheme \<Rightarrow> error option \<times> 'a tables_scheme" where
  "engine_Create obj w =
     (case rows w (key_of obj) of
        Some _ \<Rightarrow> (Some (Err ''UNIQUE constraint failed''), w)
      | None \<Rightarrow> (None, w\<lparr>rows := (rows w)(key_of obj \<mapsto> obj)\<rparr>))"

definition engine_Updates :: "Object \<Rightarrow> 'a tables_scheme \<Rightarrow> error option \<times> 'a tables_scheme" where
  "engine_Updates obj w =
     (case rows w (key_of obj) of
        Some _ \<Rightarrow> (None, w\<lparr>rows := (rows w)(key_of obj \<mapsto> obj)\<rparr>)
      | None \<Rightarrow> (None, w))"

definition engine_Delete :: "Object \<Rightarrow> 'a tables_scheme \<Rightarrow> error option \<times> 'a tables_scheme" where
  "engine_Delete obj w = (None, w\<lparr>rows := (rows w)(key_of obj := None)\<rparr>)"

definition engine_DropTable :: "table list \<Rightarrow> 'a tables_scheme \<Rightarrow> error option \<times> 'a tables_scheme" where
  "engine_DropTable ts w = (None, if Object_table \<in> set ts then w\<lparr>rows := Map.empty\<rparr> else w)"

definition engine_CreateTable :: "table list \<Rightarrow> 'a tables_scheme \<Rightarrow> error option \<times> 'a tables_scheme" where
  "engine_CreateTable ts w = (None, w)"

definition engine :: "'a tables_scheme database_Handler" where
  "engine = \<lparr>db_Create = engine_Create, db_Updates = engine_Updates, db_Delete = engine_Delete,
             db_DropTable = engine_DropTable, db_CreateTable = engine_CreateTable\<rparr>"

section \<open>The controllers helper\<close>

datatype MesheryController = MesheryBroker | Meshsync | MesheryOperator

text \<open>
  Modelled from the spec: \<^verbatim>\<open>controllers.MesheryControllerStatus\<close>, which is declared
  outside the sources, as the OperatorStatus enumeration.
\<close>

datatype MesheryControllerStatus = Deployed | NotDeployed | Deploying | Unknown

definition chartRepo :: string where
  "chartRepo = ''https://meshery.github.io/meshery.io/charts''"

definition MesheryServerBrokerConnection :: string where
  "MesheryServerBrokerConnection = ''meshery-server''"

text \<open>The deployment configuration, without its \<^verbatim>\<open>GetHelmOverrides\<close> closure.\<close>

record OperatorDeploymentConfig =
  MesheryReleaseVersion :: string
  HelmChartRepo :: string

text \<open>
  The three handlers behind \<^verbatim>\<open>controllers.IMesheryController\<close>, each bound to the
  cluster client \<open>'k\<close> it was constructed with.
\<close>

datatype 'k IMesheryController =
    NewMesheryBrokerHandler 'k
  | NewMesheryOperatorHandler 'k OperatorDeploymentConfig
  | NewMeshsyncHandler 'k

text \<open>
  Modelled from the spec: \<^verbatim>\<open>K8sContext\<close>, which is declared outside the sources. An
  opaque identifier plus the credentials a cluster client is built from.
\<close>

record K8sContext =
  ctx_ID :: string
  ctx_credentials :: string

record Options =
  URLS :: "string list"
  ConnectionName :: string
  Username :: string
  Password :: string
  ReconnectWait :: nat
  MaxReconnect :: int

text \<open>
  The packages the helper calls into. Building a kubeconfig and a client from it is
  a function of the context; the calls that reach a cluster or a broker may fail and may
  change the world.
\<close>

record ('w, 'j, 'k) externals =
  GenerateKubeConfig :: "K8sContext \<Rightarrow> string \<times> error option"
  mesherykube_New :: "string \<Rightarrow> error + 'k"
  GetPublicEndpoint :: "'k IMesheryController \<Rightarrow> 'w \<Rightarrow> (string \<times> error option) \<times> 'w"
  GetStatus :: "'k IMesheryController \<Rightarrow> 'w \<Rightarrow> MesheryControllerStatus \<times> 'w"
  Deploy :: "'k IMesheryController \<Rightarrow> 'w \<Rightarrow> error option \<times> 'w"
  nats_New :: "Options \<Rightarrow> 'w \<Rightarrow> (error + ('w, 'j) broker_Handler) \<times> 'w"

text \<open>The helper. Its \<^verbatim>\<open>*database.Handler\<close> is taken to be non-nil, its logger is the trace.\<close>

record ('w, 'j, 'k) MesheryControllersHelper =
  ctxControllerHandlersMap :: "string \<rightharpoonup> (MesheryController \<rightharpoonup> 'k IMesheryController)"
  ctxOperatorStatusMap :: "string \<rightharpoonup> MesheryControllerStatus"
  ctxMeshsyncDataHandlerMap :: "string \<rightharpoonup> ('w, 'j) MeshsyncDataHandler"
  oprDepConfig :: OperatorDeploymentConfig
  dbHandler :: "'w database_Handler"

definition NewMesheryControllersHelper ::
  "OperatorDeploymentConfig \<Rightarrow> 'w database_Handler \<Rightarrow> ('w, 'j, 'k) MesheryControllersHelper" where
  "NewMesheryControllersHelper operatorDepConfig db =
     \<lparr>ctxControllerHandlersMap = Map.empty, ctxOperatorStatusMap = Map.empty,
      ctxMeshsyncDataHandlerMap = Map.empty, oprDepConfig = operatorDepConfig, dbHandler = db\<rparr>"

text \<open>
  What the helper does to the outside, in program order. \<open>OfHandler ctxId a\<close> is the
  action \<open>a\<close> of the data handler that was built for the context \<open>ctxId\<close>.
\<close>

datatype 'j mch_action =
    Call_GetPublicEndpoint string
  | Call_nats_New string Options
  | OfHandler string "'j action"
  | Call_GetStatus string
  | Call_Deploy string
  | Log_Warn error
  | Log_Info "logarg list"
  | Log_Error error

record ('w, 'j) mch_state =
  mch_world :: 'w
  mch_trace :: "'j mch_action list"

definition mch_emit :: "'j mch_action \<Rightarrow> ('w, 'j) mch_state \<Rightarrow> ('w, 'j) mch_state" where
  "mch_emit a s = s\<lparr>mch_trace := mch_trace s @ [a]\<rparr>"

definition invoke ::
  "('w \<Rightarrow> 'r \<times> 'w) \<Rightarrow> 'j mch_action \<Rightarrow> ('w, 'j) mch_state \<Rightarrow> 'r \<times> ('w, 'j) mch_state" where
  "invoke f a s = (fst (f (mch_world s)), \<lparr>mch_world = snd (f (mch_world s)), mch_trace = mch_trace s @ [a]\<rparr>)"

text \<open>\<^verbatim>\<open>msDataHandler.Run()\<close> on behalf of a context: the handler's actions join the trace.\<close>

definition run_handler ::
  "string \<Rightarrow> ('w, 'j) MeshsyncDataHandler \<Rightarrow> ('w, 'j) mch_state \<Rightarrow> error option \<times> ('w, 'j) mch_state" where
  "run_handler ctxId mh s =
     (case Run mh \<lparr>world = mch_world s, trace = []\<rparr> of
        (r, hs) \<Rightarrow> (r, \<lparr>mch_world = world hs, mch_trace = mch_trace s @ map (OfHandler ctxId) (trace hs)\<rparr>))"

text \<open>Calling a method on the nil interface a missing map key yields.\<close>

datatype panic = NilPointerDereference

text \<open>
  \<^verbatim>\<open>for k, v := range m\<close> over a map that the body does not change: the runtime picks the
  order \<open>ks\<close> in which the keys are visited.
\<close>

fun range_map ::
  "(string \<Rightarrow> 'v \<Rightarrow> 'a \<Rightarrow> panic + 'a) \<Rightarrow> (string \<rightharpoonup> 'v) \<Rightarrow> string list \<Rightarrow> 'a \<Rightarrow> panic + 'a" where
  "range_map body m [] a = Inr a"
| "range_map body m (k # ks) a =
    (case m k of
       None \<Rightarrow> range_map body m ks a
     | Some v \<Rightarrow> (case body k v a of Inl p \<Rightarrow> Inl p | Inr a' \<Rightarrow> range_map body m ks a'))"

text \<open>The order is one the runtime can pick: every key of the map, once.\<close>

definition visits :: "string list \<Rightarrow> (string \<rightharpoonup> 'v) \<Rightarrow> bool" where
  "visits ks m = (distinct ks \<and> set ks = dom m)"

definition broker_options :: "string \<Rightarrow> Options" where
  "broker_options brokerEndpoint =
     \<lparr>URLS = [brokerEndpoint], ConnectionName = MesheryServerBrokerConnection,
      Username = [], Password = [], ReconnectWait = 2 * 1000000000, MaxReconnect = 60\<rparr>"

text \<open>The body of the loop of \<^verbatim>\<open>UpdateMeshsynDataHandlers\<close>, for one context.\<close>

definition attach_ctx ::
  "('w, 'j, 'k) externals \<Rightarrow> string \<Rightarrow> (MesheryController \<rightharpoonup> 'k IMesheryController) \<Rightarrow>
     ('w, 'j, 'k) MesheryControllersHelper \<times> ('w, 'j) mch_state \<Rightarrow>
     panic + ('w, 'j, 'k) MesheryControllersHelper \<times> ('w, 'j) mch_state" where
  "attach_ctx ext ctxId controllerHandlers ms =
    (case ms of (mch, s0) \<Rightarrow>
     (case ctxMeshsyncDataHandlerMap mch ctxId of
        Some _ \<Rightarrow> Inr (mch, s0)
      | None \<Rightarrow>
        (case controllerHandlers MesheryBroker of
           None \<Rightarrow> Inl NilPointerDereference
         | Some bh \<Rightarrow>
            (case invoke (GetPublicEndpoint ext bh) (Call_GetPublicEndpoint ctxId) s0 of
               ((brokerEndpoint, err), s1) \<Rightarrow>
                 if brokerEndpoint = [] then
                   Inr (mch, mch_emit (Log_Info [LStr ''skipping meshsync data handler setup for contextId: '',
                                         LStr ctxId, LStr '' as its public endpoint could not be found''])
                               (case err of Some e \<Rightarrow> mch_emit (Log_Warn e) s1 | None \<Rightarrow> s1))
                 else
                   (case invoke (nats_New ext (broker_options brokerEndpoint))
                                (Call_nats_New ctxId (broker_options brokerEndpoint))
                                (mch_emit (Log_Info [LStr ''found meshery-broker endpoint: '', LStr brokerEndpoint,
                                             LStr '' for contextId: '', LStr ctxId]) s1) of
                      (Inl err2, s2) \<Rightarrow>
                        Inr (mch, mch_emit (Log_Info [LStr ''skipping meshsync data handler setup for contextId: '',
                                              LStr ctxId, LStr '' due to: '', LErr err2])
                                    (mch_emit (Log_Warn err2) s2))
                    | (Inr brokerHandler, s2) \<Rightarrow>
                        (let msDataHandler = NewMeshsyncDataHandler brokerHandler (dbHandler mch) in
                         case run_handler ctxId msDataHandler
                                (mch_emit (Log_Info [LStr ''broker connection sucessfully established for contextId: '',
                                             LStr ctxId, LStr '' with meshery-broker at: '', LStr brokerEndpoint]) s2) of
                           (Some err3, s3) \<Rightarrow>
                             Inr (mch, mch_emit (Log_Info [LStr ''skipping meshsync data handler setup for contextId: '',
                                                   LStr ctxId, LStr '' due to: '', LErr err3])
                                         (mch_emit (Log_Warn err3) s3))
                         | (None, s3) \<Rightarrow>
                             Inr (mch\<lparr>ctxMeshsyncDataHandlerMap :=
                                        (ctxMeshsyncDataHandlerMap mch)(ctxId \<mapsto> msDataHandler)\<rparr>,
                                  mch_emit (Log_Info [LStr ''meshsync data handler successfully setup for contextId: '',
                                              LStr ctxId]) s3)))))))"

definition UpdateMeshsynDataHandlers ::
  "('w, 'j, 'k) externals \<Rightarrow> string list \<Rightarrow>
     ('w, 'j, 'k) MesheryControllersHelper \<times> ('w, 'j) mch_state \<Rightarrow>
     panic + ('w, 'j, 'k) MesheryControllersHelper \<times> ('w, 'j) mch_state" where
  "UpdateMeshsynDataHandlers ext ks ms =
     range_map (attach_ctx ext) (ctxControllerHandlersMap (fst ms)) ks ms"

text \<open>
  The body of the loop of \<^verbatim>\<open>UpdateCtxControllerHandlers\<close>, for one context. The error of
  \<^verbatim>\<open>GenerateKubeConfig\<close> is overwritten by that of \<^verbatim>\<open>mesherykube.New\<close> before it is read.
\<close>

definition register_ctx ::
  "('w, 'j, 'k) externals \<Rightarrow> K8sContext \<Rightarrow> ('w, 'j, 'k) MesheryControllersHelper \<Rightarrow>
     ('w, 'j, 'k) MesheryControllersHelper" where
  "register_ctx ext ctx mch =
    (let ctxId = ctx_ID ctx in
     case ctxControllerHandlersMap mch ctxId of
       Some _ \<Rightarrow> mch
     | None \<Rightarrow>
        (case mesherykube_New ext (fst (GenerateKubeConfig ext ctx)) of
           Inl err \<Rightarrow> mch
         | Inr client \<Rightarrow>
             mch\<lparr>ctxControllerHandlersMap := (ctxControllerHandlersMap mch)(ctxId \<mapsto>
                   [MesheryBroker \<mapsto> NewMesheryBrokerHandler client,
                    MesheryOperator \<mapsto> NewMesheryOperatorHandler client (oprDepConfig mch),
                    Meshsync \<mapsto> NewMeshsyncHandler client])\<rparr>))"

fun UpdateCtxControllerHandlers ::
  "('w, 'j, 'k) externals \<Rightarrow> K8sContext list \<Rightarrow> ('w, 'j, 'k) MesheryControllersHelper \<Rightarrow>
     ('w, 'j, 'k) MesheryControllersHelper" where
  "UpdateCtxControllerHandlers ext [] mch = mch"
| "UpdateCtxControllerHandlers ext (ctx # ctxs) mch =
     UpdateCtxControllerHandlers ext ctxs (register_ctx ext ctx mch)"

text \<open>
  The first entry of \<open>ctxs\<close> with the identifier \<open>c\<close> from whose kubeconfig a client is
  built, if there is one.
\<close>

definition first_buildable ::
  "('w, 'j, 'k) externals \<Rightarrow> string \<Rightarrow> K8sContext list \<Rightarrow> K8sContext option" where
  "first_buildable ext c ctxs =
     find (\<lambda>x. ctx_ID x = c \<and> \<not> isl (mesherykube_New ext (fst (GenerateKubeConfig ext x)))) ctxs"

text \<open>The body of the loop of \<^verbatim>\<open>UpdateOperatorsStatusMap\<close>, for one context.\<close>

definition poll_ctx ::
  "('w, 'j, 'k) externals \<Rightarrow> string \<Rightarrow> (MesheryController \<rightharpoonup> 'k IMesheryController) \<Rightarrow>
     ('w, 'j, 'k) MesheryControllersHelper \<times> ('w, 'j) mch_state \<Rightarrow>
     panic + ('w, 'j, 'k) MesheryControllersHelper \<times> ('w, 'j) mch_state" where
  "poll_ctx ext ctxId ctrlHandler ms =
    (case ms of (mch, s0) \<Rightarrow>
     (case ctrlHandler MesheryOperator of
        None \<Rightarrow> Inl NilPointerDereference
      | Some h \<Rightarrow>
         (case invoke (GetStatus ext h) (Call_GetStatus ctxId) s0 of
            (st, s1) \<Rightarrow>
              Inr (mch\<lparr>ctxOperatorStatusMap := (ctxOperatorStatusMap mch)(ctxId \<mapsto> st)\<rparr>, s1))))"

definition UpdateOperatorsStatusMap ::
  "('w, 'j, 'k) externals \<Rightarrow> string list \<Rightarrow>
     ('w, 'j, 'k) MesheryControllersHelper \<times> ('w, 'j) mch_state \<Rightarrow>
     panic + ('w, 'j, 'k) MesheryControllersHelper \<times> ('w, 'j) mch_state" where
  "UpdateOperatorsStatusMap ext ks ms =
     range_map (poll_ctx ext) (ctxControllerHandlersMap (fst ms)) ks ms"

text \<open>The body of the loop of \<^verbatim>\<open>DeployUndeployedOperators\<close>, for one context.\<close>

definition deploy_ctx ::
  "('w, 'j, 'k) externals \<Rightarrow> string \<Rightarrow> (MesheryController \<rightharpoonup> 'k IMesheryController) \<Rightarrow>
     ('w, 'j, 'k) MesheryControllersHelper \<times> ('w, 'j) mch_state \<Rightarrow>
     panic + ('w, 'j, 'k) MesheryControllersHelper \<times> ('w, 'j) mch_state" where
  "deploy_ctx ext ctxId ctrlHandler ms =
    (case ms of (mch, s0) \<Rightarrow>
     (case ctxOperatorStatusMap mch ctxId of
        None \<Rightarrow> Inr (mch, s0)
      | Some oprStatus \<Rightarrow>
          if oprStatus = NotDeployed then
            (case ctrlHandler MesheryOperator of
               None \<Rightarrow> Inl NilPointerDereference
             | Some h \<Rightarrow>
                (case invoke (Deploy ext h) (Call_Deploy ctxId) s0 of
                   (Some err, s1) \<Rightarrow> Inr (mch, mch_emit (Log_Error err) s1)
                 | (None, s1) \<Rightarrow> Inr (mch, s1)))
          else Inr (mch, s0)))"

definition DeployUndeployedOperators ::
  "('w, 'j, 'k) externals \<Rightarrow> string list \<Rightarrow>
     ('w, 'j, 'k) MesheryControllersHelper \<times> ('w, 'j) mch_state \<Rightarrow>
     panic + ('w, 'j, 'k) MesheryControllersHelper \<times> ('w, 'j) mch_state" where
  "DeployUndeployedOperators ext ks ms =
     range_map (deploy_ctx ext) (ctxControllerHandlersMap (fst ms)) ks ms"

text \<open>
  Every entry of the controller map has its three handlers: what the only writer of the
  map, \<^verbatim>\<open>UpdateCtxControllerHandlers\<close>, stores. On such a map no method is called on nil.
\<close>

definition handlers_complete :: "(string \<rightharpoonup> (MesheryController \<rightharpoonup> 'k IMesheryController)) \<Rightarrow> bool" where
  "handlers_complete m =
     (\<forall>c hs. m c = Some hs \<longrightarrow>
        hs MesheryBroker \<noteq> None \<and> hs MesheryOperator \<noteq> None \<and> hs Meshsync \<noteq> None)"

section \<open>The release version\<close>

datatype 'a go_result = Returns 'a | Panics

text \<open>
  \<^verbatim>\<open>checkLatestVersion\<close>. \<open>lookup\<close> is what
  \<^verbatim>\<open>utils.GetLatestReleaseTagsSorted("meshery", "meshery")\<close> returned. The source reads
  \<^verbatim>\<open>versions[len(versions)-1]\<close> before it looks at the error: on an empty slice the
  index is -1 and the read panics.
\<close>

definition checkLatestVersion ::
  "string list \<times> error option \<Rightarrow> string \<Rightarrow> (bool option \<times> string \<times> error option) go_result" where
  "checkLatestVersion lookup serverVersion =
    (case lookup of (versions, err) \<Rightarrow>
       if versions = [] then Panics
       else
         (let latestVersion = last versions; isOutdated = False in
          case err of
            Some e \<Rightarrow> Returns (None, [], Some (ErrCreateOperatorDeploymentConfig e))
          | None \<Rightarrow>
              if latestVersion \<noteq> serverVersion then Returns (Some True, latestVersion, None)
              else Returns (Some isOutdated, latestVersion, None)))"

text \<open>
  \<^verbatim>\<open>NewOperatorDeploymentConfig\<close>, where \<open>build\<close> is \<^verbatim>\<open>viper.GetString("BUILD")\<close>.
\<close>

definition NewOperatorDeploymentConfig ::
  "string \<Rightarrow> string list \<times> error option \<Rightarrow> OperatorDeploymentConfig go_result" where
  "NewOperatorDeploymentConfig build lookup =
    (if build = [] \<or> build = ''Not Set'' \<or> build = ''edge-latest'' then
       (case checkLatestVersion lookup build of
          Panics \<Rightarrow> Panics
        | Returns (_, latestRelease, err) \<Rightarrow>
            Returns \<lparr>MesheryReleaseVersion = (case err of Some _ \<Rightarrow> [] | None \<Rightarrow> latestRelease),
                     HelmChartRepo = chartRepo\<rparr>)
     else Returns \<lparr>MesheryReleaseVersion = build, HelmChartRepo = chartRepo\<rparr>)"

section \<open>Observations on a trace\<close>

fun started :: "'j action list \<Rightarrow> goroutine list" where
  "started [] = []"
| "started (Go g # tr) = g # started tr"
| "started (_ # tr) = started tr"

fun published :: "'j action list \<Rightarrow> (string \<times> 'j Message) list" where
  "published [] = []"
| "published (Publish subject m # tr) = (subject, m) # published tr"
| "published (_ # tr) = published tr"

fun subscriptions :: "'j action list \<Rightarrow> string list" where
  "subscriptions [] = []"
| "subscriptions (Subscribe subject # tr) = subject # subscriptions tr"
| "subscriptions (_ # tr) = subscriptions tr"

text \<open>The contexts Deploy was called for, and the goroutines started for one context.\<close>

fun deploys :: "'j mch_action list \<Rightarrow> string list" where
  "deploys [] = []"
| "deploys (Call_Deploy c # tr) = c # deploys tr"
| "deploys (_ # tr) = deploys tr"

fun started_for :: "string \<Rightarrow> 'j mch_action list \<Rightarrow> goroutine list" where
  "started_for c [] = []"
| "started_for c (OfHandler c' (Go g) # tr) = (if c' = c then g # started_for c tr else started_for c tr)"
| "started_for c (_ # tr) = started_for c tr"

section \<open>A small world to run the model in\<close>

text \<open>
  The storage engine above, and a broker that refuses the next \<open>refusals\<close> publishes
  and accepts every subscription. Payloads are JSON values: an object that decodes into an
  Object, or a string.
\<close>

record sim = tables +
  refusals :: nat

datatype json = JObject Object | JString string

definition sim_broker :: "(sim, json) broker_Handler" where
  "sim_broker =
     \<lparr>br_SubscribeWithChannel = (\<lambda>subject w. (None, w)),
      br_Publish = (\<lambda>subject m w.
         if refusals w = 0 then (None, w)
         else (Some (Err ''nats: publish failed''), w\<lparr>refusals := refusals w - 1\<rparr>))\<rparr>"

definition sim_handler :: "(sim, json) MeshsyncDataHandler" where
  "sim_handler = NewMeshsyncDataHandler sim_broker engine"

fun sim_dec :: "json any \<Rightarrow> error + Object" where
  "sim_dec (Other_any (JObject obj)) = Inr obj"
| "sim_dec _ = Inl (Err ''json: cannot unmarshal into Go value of type model.Object'')"

definition pod :: "string \<Rightarrow> Object" where
  "pod spec = \<lparr>obj_Kind = ''Pod'', obj_Name = ''web'', obj_Namespace = ''default'',
               obj_Spec = spec, obj_Status = ''Running''\<rparr>"

definition message :: "EventType \<Rightarrow> json any \<Rightarrow> json Message" where
  "message t payload = \<lparr>msg_EventType = t, msg_Object = payload, msg_Request = None\<rparr>"

definition sim_start :: "(key \<rightharpoonup> Object) \<Rightarrow> nat \<Rightarrow> (sim, json) state" where
  "sim_start t n = \<lparr>world = \<lparr>rows = t, refusals = n\<rparr>, trace = []\<rparr>"

text \<open>
  Clusters for the helper: a client is built from any non-empty credentials, every broker
  endpoint resolves and connects, and Deploy fails on the cluster behind the client
  \<^verbatim>\<open>unreachable\<close>.
\<close>

definition sim_ext :: "(sim, json, string) externals" where
  "sim_ext =
     \<lparr>GenerateKubeConfig = (\<lambda>ctx.
         if ctx_credentials ctx = [] then ([], Some (Err ''no credentials''))
         else (ctx_credentials ctx, None)),
      mesherykube_New = (\<lambda>cfg. if cfg = [] then Inl (Err ''invalid configuration'') else Inr cfg),
      GetPublicEndpoint = (\<lambda>h w. ((''10.0.0.7:4222'', None), w)),
      GetStatus = (\<lambda>h w. (NotDeployed, w)),
      Deploy = (\<lambda>h w. case h of
                  NewMesheryOperatorHandler client cfg \<Rightarrow>
                    if client = ''unreachable'' then (Some (Err ''helm: cluster unreachable''), w)
                    else (None, w)
                | _ \<Rightarrow> (None, w)),
      nats_New = (\<lambda>opts w. (Inr sim_broker, w))\<rparr>"

definition sim_config :: OperatorDeploymentConfig where
  "sim_config = \<lparr>MesheryReleaseVersion = ''v0.6.0'', HelmChartRepo = chartRepo\<rparr>"

definition sim_helper :: "(sim, json, string) MesheryControllersHelper" where
  "sim_helper = NewMesheryControllersHelper sim_config engine"

definition k8s :: "string \<Rightarrow> string \<Rightarrow> K8sContext" where
  "k8s i creds = \<lparr>ctx_ID = i, ctx_credentials = creds\<rparr>"

definition sim_mch_start :: "nat \<Rightarrow> (sim, json) mch_state" where
  "sim_mch_start n = \<lparr>mch_world = \<lparr>rows = Map.empty, refusals = n\<rparr>, mch_trace = []\<rparr>"

definition sim_registered :: "(sim, json, string) MesheryControllersHelper" where
  "sim_registered =
     (UpdateCtxControllerHandlers sim_ext
        [k8s ''c1'' ''unreachable'', k8s ''c2'' ''kubeconfig-2'', k8s ''c3'' ''kubeconfig-3'',
         k8s ''c4'' ''kubeconfig-4''] sim_helper)
       \<lparr>ctxOperatorStatusMap := [''c1'' \<mapsto> NotDeployed, ''c2'' \<mapsto> Deployed, ''c4'' \<mapsto> NotDeployed]\<rparr>"

definition sim_one :: "(sim, json, string) MesheryControllersHelper" where
  "sim_one = UpdateCtxControllerHandlers sim_ext [k8s ''c1'' ''kubeconfig-1''] sim_helper"

section \<open>The upsert primitive\<close>

lemma accumulator_upsert:
  assumes "msg_EventType ev = Add \<or> msg_EventType ev = Update"
      and "dec (msg_Object ev) = Inr obj"
  shows "meshsyncEventsAccumulator dec mh ev s =
     (if fst (db_Create (mh_dbHandler mh) obj (world s)) = None then
        (None, \<lparr>world = snd (db_Create (mh_dbHandler mh) obj (world s)),
                trace = trace s @ [Lock, DbCreate obj, LogInfo
                  [LStr ''Updated database in response to '', LEvt (msg_EventType ev),
                   LStr '' event of object: '', LStr (obj_Name obj),
                   LStr '' in namespace: '', LStr (obj_Namespace obj),
                   LStr '' of kind: '', LStr (obj_Kind obj)], Unlock]\<rparr>)
      else
        (fst (db_Updates (mh_dbHandler mh) obj (snd (db_Create (mh_dbHandler mh) obj (world s)))),
         \<lparr>world = snd (db_Updates (mh_dbHandler mh) obj (snd (db_Create (mh_dbHandler mh) obj (world s)))),
          trace = trace s @ [Lock, DbCreate obj, DbUpdatesFullSave obj, Unlock]\<rparr>))"
  using assms
  by (simp add: meshsyncEventsAccumulator_def Let_def call_def emit_def split: option.splits)

lemma persistStoreUpdate_upsert:
  "persistStoreUpdate mh obj s =
     (if fst (db_Create (mh_dbHandler mh) obj (world s)) = None then
        (None, \<lparr>world = snd (db_Create (mh_dbHandler mh) obj (world s)),
                trace = trace s @ [Lock, DbCreate obj, LogInfo
                  [LStr ''Added object: '', LStr (obj_Name obj), LStr ''/'',
                   LStr (obj_Namespace obj), LStr '' of kind: '', LStr (obj_Kind obj),
                   LStr '' to the database''], Unlock]\<rparr>)
      else if fst (db_Updates (mh_dbHandler mh) obj (snd (db_Create (mh_dbHandler mh) obj (world s)))) = None then
        (None, \<lparr>world = snd (db_Updates (mh_dbHandler mh) obj (snd (db_Create (mh_dbHandler mh) obj (world s)))),
          trace = trace s @ [Lock, DbCreate obj, DbUpdatesFullSave obj, LogInfo
                  [LStr ''Updated object: '', LStr (obj_Name obj), LStr ''/'',
                   LStr (obj_Namespace obj), LStr '' of kind: '', LStr (obj_Kind obj),
                   LStr '' in the database''], Unlock]\<rparr>)
      else
        (fst (db_Updates (mh_dbHandler mh) obj (snd (db_Create (mh_dbHandler mh) obj (world s)))),
         \<lparr>world = snd (db_Updates (mh_dbHandler mh) obj (snd (db_Create (mh_dbHandler mh) obj (world s)))),
          trace = trace s @ [Lock, DbCreate obj, DbUpdatesFullSave obj, Unlock]\<rparr>))"
  by (simp add: persistStoreUpdate_def Let_def call_def emit_def split: option.splits)

text \<open>
  A payload that does not decode never reaches storage: the decode error is returned
  from inside the lock bracket.
\<close>

lemma accumulator_decode_failure:
  "dec (msg_Object ev) = Inl err \<Longrightarrow>
     meshsyncEventsAccumulator dec mh ev s =
       (Some err, \<lparr>world = world s, trace = trace s @ [Lock, Unlock]\<rparr>)"
  by (simp add: meshsyncEventsAccumulator_def Let_def emit_def)

text \<open>
  C1. For an Add or Update event whose payload decodes to \<open>obj\<close>, the persistence step
  calls Create for \<open>obj\<close> first; the full update (FullSaveAssociations) of \<open>obj\<close> is
  called if and only if that Create failed, on the world the failed Create left; and an
  error is returned exactly when both calls failed (it is then the error of the update).
  For a payload that does not decode, the decode error is returned and storage is not
  called.
\<close>

theorem accumulator_decode_then_create_then_full_update:
  assumes "msg_EventType ev = Add \<or> msg_EventType ev = Update"
  shows "let res = meshsyncEventsAccumulator dec mh ev s in
         case dec (msg_Object ev) of
           Inl err \<Rightarrow>
             fst res = Some err
             \<and> db_calls (trace (snd res)) = db_calls (trace s)
             \<and> world (snd res) = world s
         | Inr obj \<Rightarrow>
            (let created = db_Create (mh_dbHandler mh) obj (world s);
                 updated = db_Updates (mh_dbHandler mh) obj (snd created)
             in db_calls (trace (snd res)) =
                  db_calls (trace s) @
                    (if fst created = None then [DbCreate obj]
                     else [DbCreate obj, DbUpdatesFullSave obj])
              \<and> (fst res \<noteq> None) = (fst created \<noteq> None \<and> fst updated \<noteq> None)
              \<and> fst res = (if fst created = None then None else fst updated)
              \<and> world (snd res) = (if fst created = None then snd created else snd updated))"
proof (cases "dec (msg_Object ev)")
  case (Inl err)
  then show ?thesis
    by (simp add: accumulator_decode_failure db_calls_def)
next
  case (Inr obj)
  then show ?thesis
    by (simp add: accumulator_upsert [of ev dec obj, OF assms] Let_def db_calls_def)
qed

theorem accumulator_decode_then_create_then_full_update_witness:
  "msg_EventType (message Update (Other_any (JObject (pod ''v2'')))) = Update
   \<and> sim_dec (msg_Object (message Update (Other_any (JObject (pod ''v2''))))) = Inr (pod ''v2'')
   \<and> fst (db_Create (mh_dbHandler sim_handler) (pod ''v2'')
            (world (sim_start [key_of (pod ''v1'') \<mapsto> pod ''v1''] 0))) \<noteq> None
   \<and> db_calls (trace (snd (meshsyncEventsAccumulator sim_dec sim_handler
            (message Update (Other_any (JObject (pod ''v2''))))
            (sim_start [key_of (pod ''v1'') \<mapsto> pod ''v1''] 0))))
       = [DbCreate (pod ''v2''), DbUpdatesFullSave (pod ''v2'')]
   \<and> fst (meshsyncEventsAccumulator sim_dec sim_handler
            (message Update (Other_any (JObject (pod ''v2''))))
            (sim_start [key_of (pod ''v1'') \<mapsto> pod ''v1''] 0)) = None"
  using accumulator_decode_then_create_then_full_update
          [of "message Update (Other_any (JObject (pod ''v2'')))" sim_dec sim_handler
              "sim_start [key_of (pod ''v1'') \<mapsto> pod ''v1''] 0"]
  by (simp add: Let_def message_def sim_handler_def NewMeshsyncDataHandler_def engine_def
        engine_Create_def engine_Updates_def sim_start_def key_of_def pod_def db_calls_def)

text \<open>
  An Add event whose payload is a JSON string: an error is returned, and neither Create
  nor the full update was called, let alone failed.
\<close>

theorem accumulator_error_without_create_counterexample:
  "msg_EventType (message Add (Other_any (JString ''not an object''))) = Add
   \<and> fst (meshsyncEventsAccumulator sim_dec sim_handler
            (message Add (Other_any (JString ''not an object''))) (sim_start Map.empty 0))
       = Some (Err ''json: cannot unmarshal into Go value of type model.Object'')
   \<and> db_calls (trace (snd (meshsyncEventsAccumulator sim_dec sim_handler
            (message Add (Other_any (JString ''not an object''))) (sim_start Map.empty 0)))) = []"
  by (simp add: meshsyncEventsAccumulator_def Let_def emit_def message_def sim_start_def db_calls_def)

text \<open>
  C8. For every Object, the snapshot path (\<open>persistStoreUpdate\<close>) and the live path on an
  Add or Update event that decodes to that Object return the same error result and leave
  the same world, through the same storage calls inside one Lock/Unlock bracket of the
  same handler: Create, then the full update if Create failed.
\<close>

theorem snapshot_path_same_upsert:
  assumes "msg_EventType ev = Add \<or> msg_EventType ev = Update"
      and "dec (msg_Object ev) = Inr obj"
  shows "let live = meshsyncEventsAccumulator dec mh ev s;
             snap = persistStoreUpdate mh obj s;
             created = db_Create (mh_dbHandler mh) obj (world s)
         in fst snap = fst live
          \<and> world (snd snap) = world (snd live)
          \<and> storage_actions (trace (snd snap)) = storage_actions (trace (snd live))
          \<and> storage_actions (trace (snd snap)) =
               storage_actions (trace s) @
                 (if fst created = None then [Lock, DbCreate obj, Unlock]
                  else [Lock, DbCreate obj, DbUpdatesFullSave obj, Unlock])"
  by (simp add: accumulator_upsert [of ev dec obj, OF assms] persistStoreUpdate_upsert Let_def
        storage_actions_def)

theorem snapshot_path_same_upsert_witness:
  "msg_EventType (message Add (Other_any (JObject (pod ''v1'')))) = Add
   \<and> sim_dec (msg_Object (message Add (Other_any (JObject (pod ''v1''))))) = Inr (pod ''v1'')
   \<and> fst (persistStoreUpdate sim_handler (pod ''v1'') (sim_start Map.empty 0)) = None
   \<and> fst (meshsyncEventsAccumulator sim_dec sim_handler
            (message Add (Other_any (JObject (pod ''v1'')))) (sim_start Map.empty 0)) = None
   \<and> storage_actions (trace (snd (persistStoreUpdate sim_handler (pod ''v1'') (sim_start Map.empty 0))))
       = [Lock, DbCreate (pod ''v1''), Unlock]
   \<and> storage_actions (trace (snd (meshsyncEventsAccumulator sim_dec sim_handler
            (message Add (Other_any (JObject (pod ''v1'')))) (sim_start Map.empty 0))))
       = [Lock, DbCreate (pod ''v1''), Unlock]"
  using snapshot_path_same_upsert
          [of "message Add (Other_any (JObject (pod ''v1'')))" sim_dec "pod ''v1''" sim_handler
              "sim_start Map.empty 0"]
  by (simp add: persistStoreUpdate_upsert Let_def message_def sim_handler_def
        NewMeshsyncDataHandler_def engine_def engine_Create_def sim_start_def storage_actions_def)

section \<open>Idempotence of Add on the keyed table\<close>

lemma engine_Create_conflict:
  "rows w (key_of obj) \<noteq> None \<Longrightarrow> engine_Create obj w = (Some (Err ''UNIQUE constraint failed''), w)"
  by (auto simp: engine_Create_def)

lemma engine_Updates_present:
  "rows w (key_of obj) \<noteq> None \<Longrightarrow>
     engine_Updates obj w = (None, w\<lparr>rows := (rows w)(key_of obj \<mapsto> obj)\<rparr>)"
  by (auto simp: engine_Updates_def)

lemma engine_upsert_present:
  fixes mh :: "('a tables_scheme, 'j) MeshsyncDataHandler"
  assumes "mh_dbHandler mh = engine"
      and "msg_EventType ev = Add \<or> msg_EventType ev = Update"
      and "dec (msg_Object ev) = Inr obj"
  shows "rows (world (snd (meshsyncEventsAccumulator dec mh ev s))) (key_of obj) = Some obj"
  by (simp add: accumulator_upsert [of ev dec obj, OF assms(2,3)] assms(1) engine_def engine_Create_def
        engine_Updates_def split: option.splits)

text \<open>
  C2. On the keyed table, for every key \<open>k\<close> and every state of the table: after two Add
  events for \<open>k\<close> in sequence the table holds exactly one row for \<open>k\<close> (as it does after
  the first), the row of the second event; the second application finds Create failing
  and the full update succeeding, calls exactly these two, and returns no error.
\<close>

theorem add_twice_one_row:
  fixes mh :: "('a tables_scheme, 'j) MeshsyncDataHandler"
  assumes "mh_dbHandler mh = engine"
      and "msg_EventType e1 = Add" and "msg_EventType e2 = Add"
      and "dec (msg_Object e1) = Inr o1" and "dec (msg_Object e2) = Inr o2"
      and "key_of o1 = k" and "key_of o2 = k"
  shows "let first = meshsyncEventsAccumulator dec mh e1 s;
             second = meshsyncEventsAccumulator dec mh e2 (snd first)
         in row_count k (world (snd first)) = 1
          \<and> row_count k (world (snd second)) = 1
          \<and> rows (world (snd second)) k = Some o2
          \<and> fst (db_Create (mh_dbHandler mh) o2 (world (snd first))) \<noteq> None
          \<and> fst (db_Updates (mh_dbHandler mh) o2
                   (snd (db_Create (mh_dbHandler mh) o2 (world (snd first))))) = None
          \<and> db_calls (trace (snd second)) =
               db_calls (trace (snd first)) @ [DbCreate o2, DbUpdatesFullSave o2]
          \<and> fst second = None"
proof -
  define first where "first = meshsyncEventsAccumulator dec mh e1 s"
  define second where "second = meshsyncEventsAccumulator dec mh e2 (snd first)"
  have t1: "msg_EventType e1 = Add \<or> msg_EventType e1 = Update"
    and t2: "msg_EventType e2 = Add \<or> msg_EventType e2 = Update"
    using assms(2,3) by simp_all
  have r1: "rows (world (snd first)) k = Some o1"
    unfolding first_def
    using engine_upsert_present [of mh e1 dec o1, OF assms(1) t1 assms(4)] assms(6) by simp
  then have present: "rows (world (snd first)) (key_of o2) \<noteq> None"
    using assms(7) by simp
  have r2: "rows (world (snd second)) k = Some o2"
    unfolding second_def
    using engine_upsert_present [of mh e2 dec o2, OF assms(1) t2 assms(5)] assms(7) by simp
  have c: "db_Create (mh_dbHandler mh) o2 (world (snd first)) =
             (Some (Err ''UNIQUE constraint failed''), world (snd first))"
    using engine_Create_conflict [OF present] by (simp add: assms(1) engine_def)
  have u: "fst (db_Updates (mh_dbHandler mh) o2 (world (snd first))) = None"
    using engine_Updates_present [OF present] by (simp add: assms(1) engine_def)
  have tr: "db_calls (trace (snd second)) =
              db_calls (trace (snd first)) @ [DbCreate o2, DbUpdatesFullSave o2]"
    unfolding second_def by (simp add: accumulator_upsert [of e2 dec o2, OF t2 assms(5)] c db_calls_def)
  have res: "fst second = None"
    unfolding second_def by (simp add: accumulator_upsert [of e2 dec o2, OF t2 assms(5)] c u)
  show ?thesis
    unfolding Let_def first_def [symmetric] second_def [symmetric]
    using r1 r2 c u tr res by (simp add: row_count_def)
qed

theorem add_twice_one_row_witness:
  "mh_dbHandler sim_handler = engine
   \<and> msg_EventType (message Add (Other_any (JObject (pod ''v1'')))) = Add
   \<and> msg_EventType (message Add (Other_any (JObject (pod ''v2'')))) = Add
   \<and> sim_dec (msg_Object (message Add (Other_any (JObject (pod ''v1''))))) = Inr (pod ''v1'')
   \<and> sim_dec (msg_Object (message Add (Other_any (JObject (pod ''v2''))))) = Inr (pod ''v2'')
   \<and> key_of (pod ''v1'') = (''Pod'', ''default'', ''web'')
   \<and> key_of (pod ''v2'') = (''Pod'', ''default'', ''web'')
   \<and> (let first = meshsyncEventsAccumulator sim_dec sim_handler
                      (message Add (Other_any (JObject (pod ''v1'')))) (sim_start Map.empty 0);
           second = meshsyncEventsAccumulator sim_dec sim_handler
                      (message Add (Other_any (JObject (pod ''v2'')))) (snd first)
       in row_count (''Pod'', ''default'', ''web'') (world (snd second)) = 1
        \<and> rows (world (snd second)) (''Pod'', ''default'', ''web'') = Some (pod ''v2'')
        \<and> db_calls (trace (snd second)) =
             db_calls (trace (snd first)) @ [DbCreate (pod ''v2''), DbUpdatesFullSave (pod ''v2'')]
        \<and> fst second = None)"
proof -
  have h1: "mh_dbHandler sim_handler = engine"
    by (simp add: sim_handler_def NewMeshsyncDataHandler_def)
  have h2: "msg_EventType (message Add (Other_any (JObject (pod ''v1'')))) = Add"
    and h3: "msg_EventType (message Add (Other_any (JObject (pod ''v2'')))) = Add"
    and h4: "sim_dec (msg_Object (message Add (Other_any (JObject (pod ''v1''))))) = Inr (pod ''v1'')"
    and h5: "sim_dec (msg_Object (message Add (Other_any (JObject (pod ''v2''))))) = Inr (pod ''v2'')"
    by (simp_all add: message_def)
  have h6: "key_of (pod ''v1'') = (''Pod'', ''default'', ''web'')"
    and h7: "key_of (pod ''v2'') = (''Pod'', ''default'', ''web'')"
    by (simp_all add: key_of_def pod_def)
  note main = add_twice_one_row [of sim_handler _ _ sim_dec, OF h1 h2 h3 h4 h5 h6 h7,
      where s = "sim_start Map.empty 0"]
  show ?thesis
    using h1 h2 h3 h4 h5 h6 h7 main by (simp add: Let_def)
qed

section \<open>Run: the cold start and the full-sync request\<close>

lemma started_append: "started (xs @ ys) = started xs @ started ys"
  by (induction xs rule: started.induct) simp_all

lemma published_append: "published (xs @ ys) = published xs @ published ys"
  by (induction xs rule: published.induct) simp_all

lemma subscriptions_append: "subscriptions (xs @ ys) = subscriptions xs @ subscriptions ys"
  by (induction xs rule: subscriptions.induct) simp_all

lemma removeStaleObjects_unfold:
  "removeStaleObjects mh s =
     (if fst (db_DropTable (mh_dbHandler mh) all_tables (world s)) \<noteq> None then
        (fst (db_DropTable (mh_dbHandler mh) all_tables (world s)),
         \<lparr>world = snd (db_DropTable (mh_dbHandler mh) all_tables (world s)),
          trace = trace s @ [Lock, LogInfo [LStr ''Removing stale meshsync objects from the database''],
                             DropTable all_tables, Unlock]\<rparr>)
      else
        (fst (db_CreateTable (mh_dbHandler mh) all_tables
                (snd (db_DropTable (mh_dbHandler mh) all_tables (world s)))),
         \<lparr>world = snd (db_CreateTable (mh_dbHandler mh) all_tables
                         (snd (db_DropTable (mh_dbHandler mh) all_tables (world s)))),
          trace = trace s @ [Lock, LogInfo [LStr ''Removing stale meshsync objects from the database''],
                             DropTable all_tables, CreateTable all_tables, Unlock]\<rparr>))"
  by (simp add: removeStaleObjects_def Let_def call_def emit_def split: option.splits)

lemma Run_unfold:
  "Run mh s =
     (case fst (removeStaleObjects mh s) of
        Some err \<Rightarrow> (Some err, snd (removeStaleObjects mh s))
      | None \<Rightarrow>
         (fst (br_Publish (mh_broker mh) ''meshery.meshsync.request'' store_request
                 (world (snd (removeStaleObjects mh s)))),
          \<lparr>world = snd (br_Publish (mh_broker mh) ''meshery.meshsync.request'' store_request
                         (world (snd (removeStaleObjects mh s)))),
           trace = trace (snd (removeStaleObjects mh s)) @
                     [Go Go_subsribeToStoreUpdates, Go Go_subscribeToMeshsyncEvents,
                      Publish ''meshery.meshsync.request'' store_request]\<rparr>))"
  by (simp add: Run_def requestMeshsyncStore_def call_def emit_def split: prod.splits option.splits)

text \<open>
  C3. \<open>Run\<close> resets first: the five tables (KeyValue, Object, ResourceSpec,
  ResourceStatus, ResourceObjectMeta) are dropped and created again, under the lock,
  before the first \<^verbatim>\<open>go\<close> statement and before the publish. The reset succeeds exactly
  when both migrator calls do. If it fails, \<open>Run\<close> returns that error in the state the
  reset left: no goroutine was started and nothing was published.
\<close>

theorem Run_cold_start_first:
  "let reset = removeStaleObjects mh s;
       res = Run mh s;
       dropped = db_DropTable (mh_dbHandler mh) all_tables (world s);
       recreated = db_CreateTable (mh_dbHandler mh) all_tables (snd dropped)
   in all_tables = [KeyValue, Object_table, ResourceSpec, ResourceStatus, ResourceObjectMeta]
    \<and> (fst reset = None) = (fst dropped = None \<and> fst recreated = None)
    \<and> (case fst reset of
          Some err \<Rightarrow>
            res = (Some err, snd reset)
            \<and> started (trace (snd res)) = started (trace s)
            \<and> published (trace (snd res)) = published (trace s)
        | None \<Rightarrow>
            trace (snd res) =
              trace s @ [Lock, LogInfo [LStr ''Removing stale meshsync objects from the database''],
                         DropTable all_tables, CreateTable all_tables, Unlock,
                         Go Go_subsribeToStoreUpdates, Go Go_subscribeToMeshsyncEvents,
                         Publish ''meshery.meshsync.request'' store_request])"
proof -
  have a: "all_tables = [KeyValue, Object_table, ResourceSpec, ResourceStatus, ResourceObjectMeta]"
    by (simp add: all_tables_def)
  have b: "(fst (removeStaleObjects mh s) = None) =
             (fst (db_DropTable (mh_dbHandler mh) all_tables (world s)) = None
              \<and> fst (db_CreateTable (mh_dbHandler mh) all_tables
                       (snd (db_DropTable (mh_dbHandler mh) all_tables (world s)))) = None)"
    by (auto simp: removeStaleObjects_unfold)
  have c: "fst (removeStaleObjects mh s) = Some err \<Longrightarrow>
            Run mh s = (Some err, snd (removeStaleObjects mh s))" for err
    by (simp add: Run_unfold)
  have e: "started (trace (snd (removeStaleObjects mh s))) = started (trace s)"
          "published (trace (snd (removeStaleObjects mh s))) = published (trace s)"
    by (simp_all add: removeStaleObjects_unfold started_append published_append)
  have d: "fst (removeStaleObjects mh s) = None \<Longrightarrow>
            trace (snd (Run mh s)) =
              trace s @ [Lock, LogInfo [LStr ''Removing stale meshsync objects from the database''],
                         DropTable all_tables, CreateTable all_tables, Unlock,
                         Go Go_subsribeToStoreUpdates, Go Go_subscribeToMeshsyncEvents,
                         Publish ''meshery.meshsync.request'' store_request]"
    by (simp add: Run_unfold) (simp add: removeStaleObjects_unfold split: if_splits)
  show ?thesis
  proof (cases "fst (removeStaleObjects mh s)")
    case None
    from d [OF None] a b show ?thesis
      unfolding Let_def None by simp
  next
    case (Some err)
    from c [OF Some] a b e show ?thesis
      unfolding Let_def Some by simp
  qed
qed


lemma persistStoreUpdate_subscriptions:
  "subscriptions (trace (snd (persistStoreUpdate mh obj s))) = subscriptions (trace s)"
  by (simp add: persistStoreUpdate_upsert subscriptions_append)

lemma objects_loop_subscriptions:
  "subscriptions (trace (objects_loop dec mh objs s)) = subscriptions (trace s)"
proof (induction objs arbitrary: s)
  case Nil
  show ?case by simp
next
  case (Cons object rest)
  show ?case
  proof (cases "dec object")
    case (Inl err)
    then show ?thesis
      by (simp add: Cons.IH emit_def subscriptions_append)
  next
    case (Inr obj)
    obtain r s' where p: "persistStoreUpdate mh obj s = (r, s')"
      by (cases "persistStoreUpdate mh obj s")
    have "subscriptions (trace s') = subscriptions (trace s)"
      using persistStoreUpdate_subscriptions [of mh obj s] p by simp
    then show ?thesis
      using Inr p by (cases r) (simp_all add: Cons.IH emit_def subscriptions_append)
  qed
qed

lemma store_loop_subscriptions:
  "subscriptions (trace (snd (store_loop dec mh ms s))) = subscriptions (trace s)"
proof (induction ms arbitrary: s)
  case Nil
  show ?case by simp
next
  case (Cons storeUpdate rest)
  show ?case
    by (cases "msg_Object storeUpdate")
       (simp_all add: Cons.IH emit_def subscriptions_append objects_loop_subscriptions)
qed

text \<open>
  C9. After a successful reset, \<open>Run\<close> starts the two loops and then publishes, on
  \<^verbatim>\<open>meshery.meshsync.request\<close>, a request with entity \<^verbatim>\<open>informer-store\<close> whose reply subject
  is \<^verbatim>\<open>meshery-server.meshsync.store\<close>: the one subject the store-update loop subscribes
  to, whatever it is then sent.
\<close>

theorem full_sync_reply_subject_is_store_subject:
  assumes "fst (removeStaleObjects mh s) = None"
  shows "trace (snd (Run mh s)) =
           trace (snd (removeStaleObjects mh s)) @
             [Go Go_subsribeToStoreUpdates, Go Go_subscribeToMeshsyncEvents,
              Publish ''meshery.meshsync.request'' store_request]
       \<and> msg_Request store_request =
           Some \<lparr>req_Entity = ''informer-store'', req_Payload_Reply = MeshsyncStoreUpdatesSubject\<rparr>
       \<and> MeshsyncStoreUpdatesSubject = ''meshery-server.meshsync.store''
       \<and> subscriptions (trace (snd (subsribeToStoreUpdates dec mh' storeChan s'))) =
           subscriptions (trace s') @ [MeshsyncStoreUpdatesSubject]"
proof -
  have run: "trace (snd (Run mh s)) =
           trace (snd (removeStaleObjects mh s)) @
             [Go Go_subsribeToStoreUpdates, Go Go_subscribeToMeshsyncEvents,
              Publish ''meshery.meshsync.request'' store_request]"
    using assms by (simp add: Run_unfold)
  have req: "msg_Request store_request =
           Some \<lparr>req_Entity = ''informer-store'', req_Payload_Reply = MeshsyncStoreUpdatesSubject\<rparr>"
    by (simp add: store_request_def MeshsyncStoreUpdatesSubject_def)
  have sub: "subscriptions (trace (snd (subsribeToStoreUpdates dec mh' storeChan s'))) =
           subscriptions (trace s') @ [MeshsyncStoreUpdatesSubject]"
    by (simp add: subsribeToStoreUpdates_def Let_def call_def emit_def store_loop_subscriptions
          subscriptions_append split: option.splits)
  show ?thesis
    using run req sub by (simp add: MeshsyncStoreUpdatesSubject_def)
qed

theorem full_sync_reply_subject_is_store_subject_witness:
  "fst (removeStaleObjects sim_handler (sim_start Map.empty 0)) = None
   \<and> published (trace (snd (Run sim_handler (sim_start Map.empty 0)))) =
       [(''meshery.meshsync.request'',
         \<lparr>msg_EventType = OtherEvent [], msg_Object = Nil_any,
          msg_Request = Some \<lparr>req_Entity = ''informer-store'',
                              req_Payload_Reply = ''meshery-server.meshsync.store''\<rparr>\<rparr>)]
   \<and> started (trace (snd (Run sim_handler (sim_start Map.empty 0)))) =
       [Go_subsribeToStoreUpdates, Go_subscribeToMeshsyncEvents]
   \<and> subscriptions (trace (snd (subsribeToStoreUpdates sim_dec sim_handler
         [message Add (Slice_any [Other_any (JObject (pod ''v1''))])] (sim_start Map.empty 0)))) =
       [''meshery-server.meshsync.store'']"
proof -
  have h: "fst (removeStaleObjects sim_handler (sim_start Map.empty 0)) = None"
    by (simp add: removeStaleObjects_unfold sim_handler_def NewMeshsyncDataHandler_def engine_def
          engine_DropTable_def engine_CreateTable_def)
  have t: "trace (snd (removeStaleObjects sim_handler (sim_start Map.empty 0))) =
             [Lock, LogInfo [LStr ''Removing stale meshsync objects from the database''],
              DropTable all_tables, CreateTable all_tables, Unlock]"
    by (simp add: removeStaleObjects_unfold sim_handler_def NewMeshsyncDataHandler_def engine_def
          engine_DropTable_def engine_CreateTable_def sim_start_def)
  note main = full_sync_reply_subject_is_store_subject [OF h, of sim_dec sim_handler
      "[message Add (Slice_any [Other_any (JObject (pod ''v1''))])]" "sim_start Map.empty 0"]
  have z: "trace (sim_start Map.empty 0) = []"
    by (simp add: sim_start_def)
  show ?thesis
    using h main by (simp add: t z store_request_def MeshsyncStoreUpdatesSubject_def)
qed



section \<open>Registering contexts\<close>

lemma register_ctx_map:
  "ctxControllerHandlersMap (register_ctx ext ctx mch) c =
     (if c = ctx_ID ctx \<and> ctxControllerHandlersMap mch c = None then
        (case mesherykube_New ext (fst (GenerateKubeConfig ext ctx)) of
           Inl err \<Rightarrow> None
         | Inr client \<Rightarrow>
             Some [MesheryBroker \<mapsto> NewMesheryBrokerHandler client,
                   MesheryOperator \<mapsto> NewMesheryOperatorHandler client (oprDepConfig mch),
                   Meshsync \<mapsto> NewMeshsyncHandler client])
      else ctxControllerHandlersMap mch c)"
  by (auto simp: register_ctx_def Let_def split: option.splits sum.splits)

lemma register_ctx_config: "oprDepConfig (register_ctx ext ctx mch) = oprDepConfig mch"
  by (simp add: register_ctx_def Let_def split: option.splits sum.splits)

lemma Update_config: "oprDepConfig (UpdateCtxControllerHandlers ext ctxs mch) = oprDepConfig mch"
  by (induction ctxs arbitrary: mch) (simp_all add: register_ctx_config)

lemma Update_frame:
  "c \<notin> ctx_ID ` set ctxs \<Longrightarrow>
     ctxControllerHandlersMap (UpdateCtxControllerHandlers ext ctxs mch) c = ctxControllerHandlersMap mch c"
  by (induction ctxs arbitrary: mch) (simp_all add: register_ctx_map)

lemma Update_present:
  "ctxControllerHandlersMap mch c \<noteq> None \<Longrightarrow>
     ctxControllerHandlersMap (UpdateCtxControllerHandlers ext ctxs mch) c = ctxControllerHandlersMap mch c"
proof (induction ctxs arbitrary: mch)
  case Nil
  show ?case by simp
next
  case (Cons y ys)
  have same: "ctxControllerHandlersMap (register_ctx ext y mch) c = ctxControllerHandlersMap mch c"
    using Cons.prems by (auto simp: register_ctx_map)
  then have "ctxControllerHandlersMap (register_ctx ext y mch) c \<noteq> None"
    using Cons.prems by simp
  from Cons.IH [OF this] same show ?case by simp
qed

lemma Update_first:
  assumes "ctxControllerHandlersMap mch c = None"
  shows "ctxControllerHandlersMap (UpdateCtxControllerHandlers ext ctxs mch) c =
     (case first_buildable ext c ctxs of
        None \<Rightarrow> None
      | Some x \<Rightarrow>
          Some [MesheryBroker \<mapsto>
                  NewMesheryBrokerHandler (projr (mesherykube_New ext (fst (GenerateKubeConfig ext x)))),
                MesheryOperator \<mapsto>
                  NewMesheryOperatorHandler (projr (mesherykube_New ext (fst (GenerateKubeConfig ext x))))
                    (oprDepConfig mch),
                Meshsync \<mapsto>
                  NewMeshsyncHandler (projr (mesherykube_New ext (fst (GenerateKubeConfig ext x))))])"
  using assms
proof (induction ctxs arbitrary: mch)
  case Nil
  then show ?case by (simp add: first_buildable_def)
next
  case (Cons y ys)
  let ?mch1 = "register_ctx ext y mch"
  let ?b = "mesherykube_New ext (fst (GenerateKubeConfig ext y))"
  show ?case
  proof (cases "ctx_ID y = c \<and> \<not> isl ?b")
    case True
    then obtain client where b: "?b = Inr client"
      by (cases ?b) auto
    have fb: "first_buildable ext c (y # ys) = Some y"
      using True by (simp add: first_buildable_def)
    have m1: "ctxControllerHandlersMap ?mch1 c =
        Some [MesheryBroker \<mapsto> NewMesheryBrokerHandler client,
              MesheryOperator \<mapsto> NewMesheryOperatorHandler client (oprDepConfig mch),
              Meshsync \<mapsto> NewMeshsyncHandler client]"
      using True Cons.prems b by (simp add: register_ctx_map)
    then have "ctxControllerHandlersMap ?mch1 c \<noteq> None" by simp
    from Update_present [OF this, of ext ys] m1 show ?thesis
      by (simp add: fb b)
  next
    case False
    have fb: "first_buildable ext c (y # ys) = first_buildable ext c ys"
      using False by (auto simp: first_buildable_def)
    have m1: "ctxControllerHandlersMap ?mch1 c = None"
      using False Cons.prems by (cases ?b) (auto simp: register_ctx_map)
    show ?thesis
      using Cons.IH [OF m1] unfolding register_ctx_config fb by simp
  qed
qed

lemma first_buildable_own:
  assumes "x \<in> set ctxs" and "\<forall>y \<in> set ctxs. ctx_ID y = ctx_ID x \<longrightarrow> y = x"
  shows "first_buildable ext (ctx_ID x) ctxs =
           (if isl (mesherykube_New ext (fst (GenerateKubeConfig ext x))) then None else Some x)"
proof (cases "isl (mesherykube_New ext (fst (GenerateKubeConfig ext x)))")
  case True
  have "\<not> (\<exists>y. y \<in> set ctxs \<and> ctx_ID y = ctx_ID x
            \<and> \<not> isl (mesherykube_New ext (fst (GenerateKubeConfig ext y))))"
    using assms(2) True by auto
  then show ?thesis
    using True by (simp add: first_buildable_def find_None_iff)
next
  case False
  obtain z where z: "first_buildable ext (ctx_ID x) ctxs = Some z"
    using assms(1) False
    by (cases "first_buildable ext (ctx_ID x) ctxs") (auto simp: first_buildable_def find_None_iff)
  then have "z \<in> set ctxs \<and> ctx_ID z = ctx_ID x"
    by (auto simp: first_buildable_def find_Some_iff)
  then have "z = x" using assms(2) by blast
  then show ?thesis using z False by simp
qed

text \<open>
  C5. After \<open>UpdateCtxControllerHandlers\<close>, an identifier that was not in the controller
  map is in it if and only if \<^verbatim>\<open>mesherykube.New\<close> built a client for some entry of \<open>ctxs\<close>
  with that identifier, and its entry then maps exactly Broker, Operator and SyncAgent to
  the handlers constructed with the client of the first such entry. So a context of
  \<open>ctxs\<close> whose identifier no other entry shares, and that was not in the map, is in it
  if and only if its own client was built, bound to that client. An entry that was
  present is unchanged, and no other key changes: a failed construction is skipped and
  touches nothing.
\<close>

theorem UpdateCtxControllerHandlers_registers:
  "let old = ctxControllerHandlersMap mch;
       new = ctxControllerHandlersMap (UpdateCtxControllerHandlers ext ctxs mch)
   in (\<forall>c. old c = None \<longrightarrow>
         new c =
           (case first_buildable ext c ctxs of
              None \<Rightarrow> None
            | Some x \<Rightarrow>
                Some [MesheryBroker \<mapsto>
                        NewMesheryBrokerHandler (projr (mesherykube_New ext (fst (GenerateKubeConfig ext x)))),
                      MesheryOperator \<mapsto>
                        NewMesheryOperatorHandler (projr (mesherykube_New ext (fst (GenerateKubeConfig ext x))))
                          (oprDepConfig mch),
                      Meshsync \<mapsto>
                        NewMeshsyncHandler (projr (mesherykube_New ext (fst (GenerateKubeConfig ext x))))]))
    \<and> (\<forall>x \<in> set ctxs.
          old (ctx_ID x) = None \<and> (\<forall>y \<in> set ctxs. ctx_ID y = ctx_ID x \<longrightarrow> y = x) \<longrightarrow>
          new (ctx_ID x) =
            (case mesherykube_New ext (fst (GenerateKubeConfig ext x)) of
               Inl err \<Rightarrow> None
             | Inr client \<Rightarrow>
                 Some [MesheryBroker \<mapsto> NewMesheryBrokerHandler client,
                       MesheryOperator \<mapsto> NewMesheryOperatorHandler client (oprDepConfig mch),
                       Meshsync \<mapsto> NewMeshsyncHandler client]))
    \<and> (\<forall>c. old c \<noteq> None \<longrightarrow> new c = old c)
    \<and> (\<forall>c. c \<notin> ctx_ID ` set ctxs \<longrightarrow> new c = old c)"
proof -
  have own: "ctxControllerHandlersMap (UpdateCtxControllerHandlers ext ctxs mch) (ctx_ID x) =
            (case mesherykube_New ext (fst (GenerateKubeConfig ext x)) of
               Inl err \<Rightarrow> None
             | Inr client \<Rightarrow>
                 Some [MesheryBroker \<mapsto> NewMesheryBrokerHandler client,
                       MesheryOperator \<mapsto> NewMesheryOperatorHandler client (oprDepConfig mch),
                       Meshsync \<mapsto> NewMeshsyncHandler client])"
    if "x \<in> set ctxs" and "ctxControllerHandlersMap mch (ctx_ID x) = None"
      and "\<forall>y \<in> set ctxs. ctx_ID y = ctx_ID x \<longrightarrow> y = x" for x
    using Update_first [OF that(2), of ext ctxs] first_buildable_own [OF that(1) that(3), of ext]
    by (cases "mesherykube_New ext (fst (GenerateKubeConfig ext x))") simp_all
  show ?thesis
    unfolding Let_def
    using Update_first [of mch _ ext ctxs] own Update_present [of mch _ ext ctxs]
      Update_frame [of _ ctxs ext mch]
    by blast
qed


theorem UpdateCtxControllerHandlers_registers_witness:
  "ctxControllerHandlersMap sim_helper ''c1'' = None
   \<and> k8s ''c3'' ''kubeconfig-3'' \<in> set [k8s ''c1'' [], k8s ''c1'' ''kubeconfig-1'', k8s ''c2'' [],
                                         k8s ''c3'' ''kubeconfig-3'']
   \<and> filter (\<lambda>y. ctx_ID y = ''c3'')
         [k8s ''c1'' [], k8s ''c1'' ''kubeconfig-1'', k8s ''c2'' [], k8s ''c3'' ''kubeconfig-3''] =
       [k8s ''c3'' ''kubeconfig-3'']
   \<and> first_buildable sim_ext ''c1''
         [k8s ''c1'' [], k8s ''c1'' ''kubeconfig-1'', k8s ''c2'' [], k8s ''c3'' ''kubeconfig-3''] =
       Some (k8s ''c1'' ''kubeconfig-1'')
   \<and> ctxControllerHandlersMap (UpdateCtxControllerHandlers sim_ext
         [k8s ''c1'' [], k8s ''c1'' ''kubeconfig-1'', k8s ''c2'' [], k8s ''c3'' ''kubeconfig-3'']
         sim_helper) ''c1'' =
       Some [MesheryBroker \<mapsto> NewMesheryBrokerHandler ''kubeconfig-1'',
             MesheryOperator \<mapsto> NewMesheryOperatorHandler ''kubeconfig-1'' sim_config,
             Meshsync \<mapsto> NewMeshsyncHandler ''kubeconfig-1'']
   \<and> ctxControllerHandlersMap (UpdateCtxControllerHandlers sim_ext
         [k8s ''c1'' [], k8s ''c1'' ''kubeconfig-1'', k8s ''c2'' [], k8s ''c3'' ''kubeconfig-3'']
         sim_helper) ''c2'' = None
   \<and> ctxControllerHandlersMap (UpdateCtxControllerHandlers sim_ext
         [k8s ''c1'' [], k8s ''c1'' ''kubeconfig-1'', k8s ''c2'' [], k8s ''c3'' ''kubeconfig-3'']
         sim_helper) ''c3'' =
       Some [MesheryBroker \<mapsto> NewMesheryBrokerHandler ''kubeconfig-3'',
             MesheryOperator \<mapsto> NewMesheryOperatorHandler ''kubeconfig-3'' sim_config,
             Meshsync \<mapsto> NewMeshsyncHandler ''kubeconfig-3'']"
proof -
  have e: "ctxControllerHandlersMap sim_helper = Map.empty" "oprDepConfig sim_helper = sim_config"
    by (simp_all add: sim_helper_def NewMesheryControllersHelper_def)
  show ?thesis
    using UpdateCtxControllerHandlers_registers [of sim_helper sim_ext
        "[k8s ''c1'' [], k8s ''c1'' ''kubeconfig-1'', k8s ''c2'' [], k8s ''c3'' ''kubeconfig-3'']"]
    by (simp add: Let_def e k8s_def sim_ext_def first_buildable_def)
qed

text \<open>
  Two entries with one identifier, the first without credentials: no client is built for
  the first, and the identifier is registered all the same, with the client of the second.
\<close>

theorem registered_though_own_client_failed_counterexample:
  "k8s ''c1'' [] \<in> set [k8s ''c1'' [], k8s ''c1'' ''kubeconfig-1'']
   \<and> ctxControllerHandlersMap sim_helper (ctx_ID (k8s ''c1'' [])) = None
   \<and> mesherykube_New sim_ext (fst (GenerateKubeConfig sim_ext (k8s ''c1'' []))) =
       Inl (Err ''invalid configuration'')
   \<and> ctxControllerHandlersMap (UpdateCtxControllerHandlers sim_ext
         [k8s ''c1'' [], k8s ''c1'' ''kubeconfig-1''] sim_helper) (ctx_ID (k8s ''c1'' [])) =
       Some [MesheryBroker \<mapsto> NewMesheryBrokerHandler ''kubeconfig-1'',
             MesheryOperator \<mapsto> NewMesheryOperatorHandler ''kubeconfig-1'' sim_config,
             Meshsync \<mapsto> NewMeshsyncHandler ''kubeconfig-1'']"
  by (simp add: sim_helper_def NewMesheryControllersHelper_def register_ctx_def k8s_def sim_ext_def)

section \<open>Deploying operators\<close>

lemma deploys_append: "deploys (xs @ ys) = deploys xs @ deploys ys"
  by (induction xs rule: deploys.induct) simp_all

lemma deploy_ctx_unfold:
  "deploy_ctx ext c hs (mch, s) =
     (if ctxOperatorStatusMap mch c = Some NotDeployed then
        (case hs MesheryOperator of
           None \<Rightarrow> Inl NilPointerDereference
         | Some h \<Rightarrow>
             Inr (mch, \<lparr>mch_world = snd (Deploy ext h (mch_world s)),
                        mch_trace = mch_trace s @ Call_Deploy c #
                          (case fst (Deploy ext h (mch_world s)) of
                             Some err \<Rightarrow> [Log_Error err] | None \<Rightarrow> [])\<rparr>))
      else Inr (mch, s))"
  by (simp add: deploy_ctx_def invoke_def mch_emit_def split: option.splits)

lemma deploy_loop:
  assumes "\<forall>c \<in> set ks. \<forall>hs. m c = Some hs \<longrightarrow> hs MesheryOperator \<noteq> None"
  shows "\<exists>s'. range_map (deploy_ctx ext) m ks (mch, s) = Inr (mch, s')
            \<and> deploys (mch_trace s') =
                deploys (mch_trace s) @
                  filter (\<lambda>c. m c \<noteq> None \<and> ctxOperatorStatusMap mch c = Some NotDeployed) ks"
  using assms
proof (induction ks arbitrary: s)
  case Nil
  show ?case by simp
next
  case (Cons k ks)
  have rest: "\<forall>c \<in> set ks. \<forall>hs. m c = Some hs \<longrightarrow> hs MesheryOperator \<noteq> None"
    using Cons.prems by simp
  show ?case
  proof (cases "m k")
    case None
    then show ?thesis using Cons.IH [OF rest, of s] by simp
  next
    case (Some hs)
    then obtain h where h: "hs MesheryOperator = Some h"
      using Cons.prems by auto
    show ?thesis
    proof (cases "ctxOperatorStatusMap mch k = Some NotDeployed")
      case False
      then show ?thesis
        using Some Cons.IH [OF rest, of s] by (simp add: deploy_ctx_unfold)
    next
      case True
      define s1 where
        "s1 = \<lparr>mch_world = snd (Deploy ext h (mch_world s)),
               mch_trace = mch_trace s @ Call_Deploy k #
                 (case fst (Deploy ext h (mch_world s)) of
                    Some err \<Rightarrow> [Log_Error err] | None \<Rightarrow> [])\<rparr>"
      have step: "deploy_ctx ext k hs (mch, s) = Inr (mch, s1)"
        using True h by (simp add: deploy_ctx_unfold s1_def)
      have d1: "deploys (mch_trace s1) = deploys (mch_trace s) @ [k]"
        by (simp add: s1_def deploys_append split: option.splits)
      from Cons.IH [OF rest, of s1] obtain s' where
        "range_map (deploy_ctx ext) m ks (mch, s1) = Inr (mch, s')"
        "deploys (mch_trace s') = deploys (mch_trace s1) @
           filter (\<lambda>c. m c \<noteq> None \<and> ctxOperatorStatusMap mch c = Some NotDeployed) ks"
        by blast
      then show ?thesis
        using Some True step d1 by simp
    qed
  qed
qed

text \<open>
  C4. In one pass over the registered contexts, whatever the Deploy calls return, the
  pass does not panic, leaves the helper as it was, and calls Deploy once for each
  registered context whose cached status is NotDeployed and for no other: in particular
  not for a context cached as Deployed or without a cached status. A Deploy that fails
  has its error logged, and the body of the loop returns normally, so the loop goes on.
\<close>

theorem DeployUndeployedOperators_only_NotDeployed:
  assumes "visits ks (ctxControllerHandlersMap mch)"
      and "handlers_complete (ctxControllerHandlersMap mch)"
  shows "(\<exists>s'. DeployUndeployedOperators ext ks (mch, s) = Inr (mch, s')
            \<and> deploys (mch_trace s') =
                deploys (mch_trace s) @
                  filter (\<lambda>c. ctxOperatorStatusMap mch c = Some NotDeployed) ks)
       \<and> distinct (filter (\<lambda>c. ctxOperatorStatusMap mch c = Some NotDeployed) ks)
       \<and> set (filter (\<lambda>c. ctxOperatorStatusMap mch c = Some NotDeployed) ks) =
           {c. ctxControllerHandlersMap mch c \<noteq> None \<and> ctxOperatorStatusMap mch c = Some NotDeployed}
       \<and> (\<forall>c hs h err s0.
             ctxOperatorStatusMap mch c = Some NotDeployed \<and> hs MesheryOperator = Some h
             \<and> fst (Deploy ext h (mch_world s0)) = Some err \<longrightarrow>
             deploy_ctx ext c hs (mch, s0) =
               Inr (mch, \<lparr>mch_world = snd (Deploy ext h (mch_world s0)),
                          mch_trace = mch_trace s0 @ [Call_Deploy c, Log_Error err]\<rparr>))"
proof -
  have all: "\<forall>c \<in> set ks. ctxControllerHandlersMap mch c \<noteq> None"
    using assms(1) by (auto simp: visits_def)
  have ops: "\<forall>c \<in> set ks. \<forall>hs. ctxControllerHandlersMap mch c = Some hs \<longrightarrow> hs MesheryOperator \<noteq> None"
    using assms(2) by (auto simp: handlers_complete_def)
  have f: "filter (\<lambda>c. ctxControllerHandlersMap mch c \<noteq> None \<and> ctxOperatorStatusMap mch c = Some NotDeployed) ks
         = filter (\<lambda>c. ctxOperatorStatusMap mch c = Some NotDeployed) ks"
    using all by (intro filter_cong) auto
  have loop: "\<exists>s'. DeployUndeployedOperators ext ks (mch, s) = Inr (mch, s')
            \<and> deploys (mch_trace s') =
                deploys (mch_trace s) @
                  filter (\<lambda>c. ctxOperatorStatusMap mch c = Some NotDeployed) ks"
    using deploy_loop [OF ops, of ext mch s] unfolding DeployUndeployedOperators_def f fst_conv .
  have dist: "distinct (filter (\<lambda>c. ctxOperatorStatusMap mch c = Some NotDeployed) ks)"
    using assms(1) by (simp add: visits_def)
  have st: "set (filter (\<lambda>c. ctxOperatorStatusMap mch c = Some NotDeployed) ks) =
           {c. ctxControllerHandlersMap mch c \<noteq> None \<and> ctxOperatorStatusMap mch c = Some NotDeployed}"
    using assms(1) by (auto simp: visits_def)
  have body: "\<forall>c hs h err s0.
             ctxOperatorStatusMap mch c = Some NotDeployed \<and> hs MesheryOperator = Some h
             \<and> fst (Deploy ext h (mch_world s0)) = Some err \<longrightarrow>
             deploy_ctx ext c hs (mch, s0) =
               Inr (mch, \<lparr>mch_world = snd (Deploy ext h (mch_world s0)),
                          mch_trace = mch_trace s0 @ [Call_Deploy c, Log_Error err]\<rparr>)"
    by (simp add: deploy_ctx_unfold)
  show ?thesis
    using loop dist st body by blast
qed


lemma handlers_complete_empty:
  "handlers_complete (ctxControllerHandlersMap (NewMesheryControllersHelper cfg db))"
  by (simp add: handlers_complete_def NewMesheryControllersHelper_def)

lemma handlers_complete_register:
  "handlers_complete (ctxControllerHandlersMap mch) \<Longrightarrow>
     handlers_complete (ctxControllerHandlersMap (register_ctx ext x mch))"
  unfolding handlers_complete_def register_ctx_map
  by (auto split: if_splits sum.splits)

lemma handlers_complete_Update:
  "handlers_complete (ctxControllerHandlersMap mch) \<Longrightarrow>
     handlers_complete (ctxControllerHandlersMap (UpdateCtxControllerHandlers ext ctxs mch))"
  by (induction ctxs arbitrary: mch) (simp_all add: handlers_complete_register)

lemma sim_registered_map:
  "ctxControllerHandlersMap sim_registered =
     [''c1'' \<mapsto> [MesheryBroker \<mapsto> NewMesheryBrokerHandler ''unreachable'',
                  MesheryOperator \<mapsto> NewMesheryOperatorHandler ''unreachable'' sim_config,
                  Meshsync \<mapsto> NewMeshsyncHandler ''unreachable''],
      ''c2'' \<mapsto> [MesheryBroker \<mapsto> NewMesheryBrokerHandler ''kubeconfig-2'',
                  MesheryOperator \<mapsto> NewMesheryOperatorHandler ''kubeconfig-2'' sim_config,
                  Meshsync \<mapsto> NewMeshsyncHandler ''kubeconfig-2''],
      ''c3'' \<mapsto> [MesheryBroker \<mapsto> NewMesheryBrokerHandler ''kubeconfig-3'',
                  MesheryOperator \<mapsto> NewMesheryOperatorHandler ''kubeconfig-3'' sim_config,
                  Meshsync \<mapsto> NewMeshsyncHandler ''kubeconfig-3''],
      ''c4'' \<mapsto> [MesheryBroker \<mapsto> NewMesheryBrokerHandler ''kubeconfig-4'',
                  MesheryOperator \<mapsto> NewMesheryOperatorHandler ''kubeconfig-4'' sim_config,
                  Meshsync \<mapsto> NewMeshsyncHandler ''kubeconfig-4'']]"
  by (simp add: sim_registered_def sim_helper_def NewMesheryControllersHelper_def register_ctx_def
        k8s_def sim_ext_def)

lemma sim_registered_status:
  "ctxOperatorStatusMap sim_registered =
     [''c1'' \<mapsto> NotDeployed, ''c2'' \<mapsto> Deployed, ''c4'' \<mapsto> NotDeployed]"
  by (simp add: sim_registered_def)

theorem DeployUndeployedOperators_only_NotDeployed_witness:
  "visits [''c1'', ''c2'', ''c3'', ''c4''] (ctxControllerHandlersMap sim_registered)
   \<and> handlers_complete (ctxControllerHandlersMap sim_registered)
   \<and> (\<exists>s'. DeployUndeployedOperators sim_ext [''c1'', ''c2'', ''c3'', ''c4'']
               (sim_registered, sim_mch_start 0) = Inr (sim_registered, s')
           \<and> deploys (mch_trace s') = [''c1'', ''c4''])
   \<and> deploy_ctx sim_ext ''c1'' [MesheryOperator \<mapsto> NewMesheryOperatorHandler ''unreachable'' sim_config]
         (sim_registered, sim_mch_start 0) =
       Inr (sim_registered,
            \<lparr>mch_world = \<lparr>rows = Map.empty, refusals = 0\<rparr>,
             mch_trace = [Call_Deploy ''c1'', Log_Error (Err ''helm: cluster unreachable'')]\<rparr>)"
proof -
  have v: "visits [''c1'', ''c2'', ''c3'', ''c4''] (ctxControllerHandlersMap sim_registered)"
    by (auto simp: visits_def sim_registered_map)
  have c: "handlers_complete (ctxControllerHandlersMap sim_registered)"
    by (simp add: sim_registered_def sim_helper_def handlers_complete_register handlers_complete_empty)
  note main = DeployUndeployedOperators_only_NotDeployed [OF v c, of sim_ext "sim_mch_start 0"]
  have z: "mch_trace (sim_mch_start 0) = []" "mch_world (sim_mch_start 0) = \<lparr>rows = Map.empty, refusals = 0\<rparr>"
    by (simp_all add: sim_mch_start_def)
  have body: "deploy_ctx sim_ext ''c1'' [MesheryOperator \<mapsto> NewMesheryOperatorHandler ''unreachable'' sim_config]
         (sim_registered, sim_mch_start 0) =
       Inr (sim_registered,
            \<lparr>mch_world = \<lparr>rows = Map.empty, refusals = 0\<rparr>,
             mch_trace = [Call_Deploy ''c1'', Log_Error (Err ''helm: cluster unreachable'')]\<rparr>)"
    by (simp add: deploy_ctx_unfold sim_registered_status z sim_ext_def)
  have loop: "\<exists>s'. DeployUndeployedOperators sim_ext [''c1'', ''c2'', ''c3'', ''c4'']
               (sim_registered, sim_mch_start 0) = Inr (sim_registered, s')
           \<and> deploys (mch_trace s') = [''c1'', ''c4'']"
    using main by (simp add: sim_registered_status z)
  show ?thesis
    using v c loop body by blast
qed

section \<open>The subscriber loops and their type assertions\<close>

text \<open>
  On messages whose payloads have the asserted shapes, neither loop panics: a payload
  that does not decode and a write that fails are logged and the loop goes on, until the
  channel is closed.
\<close>

lemma events_loop_no_panic:
  "list_all event_asserts ms \<Longrightarrow> fst (events_loop dec mh ms s) = ChannelClosed"
proof (induction ms arbitrary: s)
  case Nil
  show ?case by simp
next
  case (Cons m ms)
  then have rest: "\<And>s'. fst (events_loop dec mh ms s') = ChannelClosed" by simp
  obtain r s' where acc: "meshsyncEventsAccumulator dec mh m s = (r, s')"
    by (cases "meshsyncEventsAccumulator dec mh m s")
  show ?case
    using Cons.prems rest acc
    by (cases "msg_Object m"; cases r) (simp_all)
qed

lemma store_loop_no_panic:
  "list_all store_asserts ms \<Longrightarrow> fst (store_loop dec mh ms s) = ChannelClosed"
proof (induction ms arbitrary: s)
  case Nil
  show ?case by simp
next
  case (Cons m ms)
  then have rest: "\<And>s'. fst (store_loop dec mh ms s') = ChannelClosed" by simp
  show ?case
    using Cons.prems rest by (cases "msg_Object m") (simp_all)
qed

text \<open>A payload of any other shape ends the loop where it stands.\<close>

lemma events_loop_failed_assertion:
  "msg_EventType m = ErrorEvent \<Longrightarrow> \<not> event_asserts m \<Longrightarrow>
     events_loop dec mh (m # rest) s = (Panicked, s)"
  by (cases "msg_Object m") simp_all

lemma store_loop_failed_assertion:
  "\<not> store_asserts m \<Longrightarrow> store_loop dec mh (m # rest) s = (Panicked, s)"
  by (cases "msg_Object m") (simp_all split: if_splits)

text \<open>
  C7. The claim fails on the code. The events loop, given an Error-tagged event whose
  payload is a JSON string (not a Go \<^verbatim>\<open>error\<close>), panics at \<^verbatim>\<open>event.Object.(error)\<close>: the Add
  event behind it is never processed. The store-update loop, given a snapshot message
  whose payload is a single object (not a \<^verbatim>\<open>[]interface{}\<close>), panics at
  \<^verbatim>\<open>storeUpdate.Object.([]interface{})\<close>: the snapshot behind it is never persisted.
\<close>

theorem loops_panic_on_unchecked_assertion:
  "subscribeToMeshsyncEvents sim_dec sim_handler
      [message ErrorEvent (Other_any (JString ''watch closed'')),
       message Add (Other_any (JObject (pod ''v1'')))]
      (sim_start Map.empty 0)
     = (Panicked,
        \<lparr>world = \<lparr>rows = Map.empty, refusals = 0\<rparr>,
         trace = [Subscribe ''meshery.meshsync.core'',
                  LogInfo [LStr ''subscribing to meshsync events on NATS subject: meshery.meshsync.core  '']]\<rparr>)
   \<and> subsribeToStoreUpdates sim_dec sim_handler
      [message Add (Other_any (JObject (pod ''v1''))),
       message Add (Slice_any [Other_any (JObject (pod ''v2''))])]
      (sim_start Map.empty 0)
     = (Panicked,
        \<lparr>world = \<lparr>rows = Map.empty, refusals = 0\<rparr>,
         trace = [LogInfo [LStr ''subscribing to store updates from meshsync on NATS subject: '',
                           LStr ''meshery-server.meshsync.store''],
                  Subscribe ''meshery-server.meshsync.store'']\<rparr>)"
  by (simp add: subscribeToMeshsyncEvents_def subsribeToStoreUpdates_def Let_def call_def emit_def
        sim_handler_def NewMeshsyncDataHandler_def sim_broker_def sim_start_def message_def
        MeshsyncStoreUpdatesSubject_def)

section \<open>Attaching accumulators\<close>

text \<open>A context that has its handler is left alone.\<close>

lemma attach_ctx_present:
  "ctxMeshsyncDataHandlerMap mch c = Some h \<Longrightarrow> attach_ctx ext c hs (mch, s) = Inr (mch, s)"
  by (simp add: attach_ctx_def)

text \<open>
  A publish that fails makes \<open>Run\<close> return the error after both goroutines were started.
\<close>

lemma Run_failed_publish_leaves_loops:
  assumes "fst (removeStaleObjects mh s) = None"
      and "fst (br_Publish (mh_broker mh) ''meshery.meshsync.request'' store_request
                  (world (snd (removeStaleObjects mh s)))) = Some err"
  shows "fst (Run mh s) = Some err"
    and "started (trace (snd (Run mh s))) =
           started (trace s) @ [Go_subsribeToStoreUpdates, Go_subscribeToMeshsyncEvents]"
  using assms
  by (simp_all add: Run_unfold started_append)
     (simp add: removeStaleObjects_unfold started_append split: if_splits)

lemma sim_Run:
  "Run (NewMeshsyncDataHandler sim_broker engine) \<lparr>world = \<lparr>rows = t, refusals = n\<rparr>, trace = []\<rparr> =
     ((if n = 0 then None else Some (Err ''nats: publish failed'')),
      \<lparr>world = \<lparr>rows = Map.empty, refusals = n - 1\<rparr>,
       trace = [Lock, LogInfo [LStr ''Removing stale meshsync objects from the database''],
                DropTable all_tables, CreateTable all_tables, Unlock,
                Go Go_subsribeToStoreUpdates, Go Go_subscribeToMeshsyncEvents,
                Publish ''meshery.meshsync.request'' store_request]\<rparr>)"
  by (simp add: Run_unfold removeStaleObjects_unfold NewMeshsyncDataHandler_def engine_def
        engine_DropTable_def engine_CreateTable_def sim_broker_def all_tables_def)

lemma started_for_append: "started_for c (xs @ ys) = started_for c xs @ started_for c ys"
  by (induction c xs rule: started_for.induct) simp_all

lemma sim_attach:
  assumes "ctxMeshsyncDataHandlerMap mch c = None" and "hs MesheryBroker = Some bh"
      and "dbHandler mch = engine"
  shows "\<exists>tr. attach_ctx sim_ext c hs (mch, \<lparr>mch_world = \<lparr>rows = t, refusals = n\<rparr>, mch_trace = tr0\<rparr>) =
     Inr ((if n = 0
           then mch\<lparr>ctxMeshsyncDataHandlerMap :=
                      (ctxMeshsyncDataHandlerMap mch)(c \<mapsto> NewMeshsyncDataHandler sim_broker engine)\<rparr>
           else mch),
          \<lparr>mch_world = \<lparr>rows = Map.empty, refusals = n - 1\<rparr>, mch_trace = tr\<rparr>)
     \<and> started_for c tr = started_for c tr0 @ [Go_subsribeToStoreUpdates, Go_subscribeToMeshsyncEvents]"
  using assms
  by (simp add: attach_ctx_def invoke_def mch_emit_def run_handler_def sim_Run sim_ext_def
        started_for_append)


lemma sim_one_fields:
  "ctxControllerHandlersMap sim_one ''c1'' =
     Some [MesheryBroker \<mapsto> NewMesheryBrokerHandler ''kubeconfig-1'',
           MesheryOperator \<mapsto> NewMesheryOperatorHandler ''kubeconfig-1'' sim_config,
           Meshsync \<mapsto> NewMeshsyncHandler ''kubeconfig-1'']"
  "ctxMeshsyncDataHandlerMap sim_one = Map.empty"
  "dbHandler sim_one = engine"
  by (simp_all add: sim_one_def sim_helper_def NewMesheryControllersHelper_def register_ctx_def
        k8s_def sim_ext_def)

text \<open>
  C6. The claim fails on the code. \<open>Run\<close> starts its two goroutines before the publish
  that can still fail. With a broker that accepts subscriptions and refuses one publish,
  the first pass over the context \<^verbatim>\<open>c1\<close> starts the two loops, gets the publish error and
  leaves \<^verbatim>\<open>c1\<close> unattached with the loops running; the second pass builds a second
  handler for \<^verbatim>\<open>c1\<close>, starts two more loops and stores it: two accumulators run for \<^verbatim>\<open>c1\<close>.
\<close>

theorem second_accumulator_after_failed_publish:
  "\<exists>mch1 s1 mch2 s2.
      UpdateMeshsynDataHandlers sim_ext [''c1''] (sim_one, sim_mch_start 1) = Inr (mch1, s1)
    \<and> ctxMeshsyncDataHandlerMap mch1 ''c1'' = None
    \<and> started_for ''c1'' (mch_trace s1) = [Go_subsribeToStoreUpdates, Go_subscribeToMeshsyncEvents]
    \<and> UpdateMeshsynDataHandlers sim_ext [''c1''] (mch1, s1) = Inr (mch2, s2)
    \<and> ctxMeshsyncDataHandlerMap mch2 ''c1'' = Some (NewMeshsyncDataHandler sim_broker engine)
    \<and> started_for ''c1'' (mch_trace s2) =
         [Go_subsribeToStoreUpdates, Go_subscribeToMeshsyncEvents,
          Go_subsribeToStoreUpdates, Go_subscribeToMeshsyncEvents]
    \<and> fst (br_SubscribeWithChannel sim_broker ''meshery.meshsync.core'' (mch_world s1)) = None
    \<and> fst (br_SubscribeWithChannel sim_broker MeshsyncStoreUpdatesSubject (mch_world s1)) = None"
proof -
  let ?hs = "[MesheryBroker \<mapsto> NewMesheryBrokerHandler ''kubeconfig-1'',
              MesheryOperator \<mapsto> NewMesheryOperatorHandler ''kubeconfig-1'' sim_config,
              Meshsync \<mapsto> NewMeshsyncHandler ''kubeconfig-1'']"
  have b: "?hs MesheryBroker = Some (NewMesheryBrokerHandler ''kubeconfig-1'')"
    by simp
  have n: "ctxMeshsyncDataHandlerMap sim_one ''c1'' = None"
    by (simp add: sim_one_fields)
  from sim_attach [of sim_one "''c1''" ?hs "NewMesheryBrokerHandler ''kubeconfig-1''" Map.empty 1 "[]",
      OF n b sim_one_fields(3)]
  obtain tr1 where
    a1: "attach_ctx sim_ext ''c1'' ?hs (sim_one, sim_mch_start 1) =
           Inr (sim_one, \<lparr>mch_world = \<lparr>rows = Map.empty, refusals = 0\<rparr>, mch_trace = tr1\<rparr>)"
    and g1: "started_for ''c1'' tr1 = [Go_subsribeToStoreUpdates, Go_subscribeToMeshsyncEvents]"
    by (auto simp: sim_mch_start_def)
  from sim_attach [of sim_one "''c1''" ?hs "NewMesheryBrokerHandler ''kubeconfig-1''" Map.empty 0 tr1,
      OF n b sim_one_fields(3)]
  obtain tr2 where
    a2: "attach_ctx sim_ext ''c1'' ?hs
           (sim_one, \<lparr>mch_world = \<lparr>rows = Map.empty, refusals = 0\<rparr>, mch_trace = tr1\<rparr>) =
           Inr (sim_one\<lparr>ctxMeshsyncDataHandlerMap :=
                          (ctxMeshsyncDataHandlerMap sim_one)(''c1'' \<mapsto> NewMeshsyncDataHandler sim_broker engine)\<rparr>,
                \<lparr>mch_world = \<lparr>rows = Map.empty, refusals = 0\<rparr>, mch_trace = tr2\<rparr>)"
    and g2: "started_for ''c1'' tr2 = started_for ''c1'' tr1 @ [Go_subsribeToStoreUpdates, Go_subscribeToMeshsyncEvents]"
    by auto
  have p1: "UpdateMeshsynDataHandlers sim_ext [''c1''] (sim_one, sim_mch_start 1) =
              Inr (sim_one, \<lparr>mch_world = \<lparr>rows = Map.empty, refusals = 0\<rparr>, mch_trace = tr1\<rparr>)"
    by (simp add: UpdateMeshsynDataHandlers_def sim_one_fields(1) a1 del: One_nat_def)
  have p2: "UpdateMeshsynDataHandlers sim_ext [''c1'']
              (sim_one, \<lparr>mch_world = \<lparr>rows = Map.empty, refusals = 0\<rparr>, mch_trace = tr1\<rparr>) =
              Inr (sim_one\<lparr>ctxMeshsyncDataHandlerMap :=
                          (ctxMeshsyncDataHandlerMap sim_one)(''c1'' \<mapsto> NewMeshsyncDataHandler sim_broker engine)\<rparr>,
                   \<lparr>mch_world = \<lparr>rows = Map.empty, refusals = 0\<rparr>, mch_trace = tr2\<rparr>)"
    by (simp add: UpdateMeshsynDataHandlers_def sim_one_fields(1) a2)
  have sub: "fst (br_SubscribeWithChannel sim_broker subject w) = None" for subject w
    by (simp add: sim_broker_def)
  show ?thesis
    apply (rule exI [of _ sim_one])
    apply (rule exI [of _ "\<lparr>mch_world = \<lparr>rows = Map.empty, refusals = 0\<rparr>, mch_trace = tr1\<rparr>"])
    apply (rule exI [of _ "sim_one\<lparr>ctxMeshsyncDataHandlerMap :=
              (ctxMeshsyncDataHandlerMap sim_one)(''c1'' \<mapsto> NewMeshsyncDataHandler sim_broker engine)\<rparr>"])
    apply (rule exI [of _ "\<lparr>mch_world = \<lparr>rows = Map.empty, refusals = 0\<rparr>, mch_trace = tr2\<rparr>"])
    apply (simp add: p1 p2 n g1 g2 sub del: One_nat_def)
    done
qed

section \<open>The release version lookup\<close>

lemma checkLatestVersion_empty: "checkLatestVersion ([], err) serverVersion = Panics"
  by (simp add: checkLatestVersion_def)

text \<open>
  C10. The claim fails on the code. When the lookup fails it returns no versions and an
  error; \<open>checkLatestVersion\<close> indexes the empty slice before it looks at the error and
  panics, and so does its caller \<open>NewOperatorDeploymentConfig\<close>, which was written to
  handle that error.
\<close>

theorem checkLatestVersion_panics_on_failed_lookup:
  "checkLatestVersion ([], Some (Err ''status code 403'')) ''edge-latest'' = Panics
   \<and> checkLatestVersion ([], None) ''edge-latest'' = Panics
   \<and> NewOperatorDeploymentConfig ''edge-latest'' ([], Some (Err ''status code 403'')) = Panics"
  by (simp add: checkLatestVersion_def NewOperatorDeploymentConfig_def)

lemma checkLatestVersion_returns:
  "versions \<noteq> [] \<Longrightarrow> \<exists>r. checkLatestVersion (versions, err) serverVersion = Returns r"
  by (simp add: checkLatestVersion_def Let_def split: option.splits)

end
